theory Spec2Isabelle
  imports Complex_Main "HOL-Library.Multiset"
begin

section \<open>Data model\<close>

text \<open>
  The services of the repository (\<^verbatim>\<open>order.service.ts\<close>, \<^verbatim>\<open>delivery.service.ts\<close> and the
  queue service) are embedded as functions on an explicit store. Every table of the
  relational store is a list of rows, every \<^verbatim>\<open>throw\<close> is a value \<open>Inl e\<close>, and a call that
  throws persists nothing. Identifiers are the strings (uuids) of the source.
\<close>

type_synonym ident = string

datatype OrderStatus = PENDING | CONFIRMED | PREPARING | ON_THE_WAY | DELIVERED | CANCELLED

datatype DeliveryStatus = ASSIGNED | PICKED_UP | IN_TRANSIT | DELIVERED_delivery

datatype error = NotFoundError string | BadRequestError string | StoreError string

fun message :: "error \<Rightarrow> string" where
  "message (NotFoundError m) = m"
| "message (BadRequestError m) = m"
| "message (StoreError m) = m"

fun isBadRequest :: "error + 'a \<Rightarrow> bool" where
  "isBadRequest (Inl (BadRequestError m)) = True"
| "isBadRequest r = False"

text \<open>
  The text of a status inside a template literal (\<^verbatim>\<open>`${order.status}`\<close>).
\<close>

fun orderStatusText :: "OrderStatus \<Rightarrow> string" where
  "orderStatusText PENDING = ''PENDING''"
| "orderStatusText CONFIRMED = ''CONFIRMED''"
| "orderStatusText PREPARING = ''PREPARING''"
| "orderStatusText ON_THE_WAY = ''ON_THE_WAY''"
| "orderStatusText DELIVERED = ''DELIVERED''"
| "orderStatusText CANCELLED = ''CANCELLED''"

fun deliveryStatusText :: "DeliveryStatus \<Rightarrow> string" where
  "deliveryStatusText ASSIGNED = ''ASSIGNED''"
| "deliveryStatusText PICKED_UP = ''PICKED_UP''"
| "deliveryStatusText IN_TRANSIT = ''IN_TRANSIT''"
| "deliveryStatusText DELIVERED_delivery = ''DELIVERED''"

text \<open>
  Monetary values have two forms. The store holds \<^verbatim>\<open>Prisma.Decimal\<close> values, and the services
  compute on JavaScript numbers (IEEE doubles) that they read with \<^verbatim>\<open>Number(decimal)\<close> and
  put back with \<^verbatim>\<open>new Prisma.Decimal(number)\<close>. The services are written over the
  operations they apply to these values: the literals \<^verbatim>\<open>0\<close>, \<^verbatim>\<open>0.1\<close> and \<^verbatim>\<open>5.00\<close>, a
  quantity as a number, \<^verbatim>\<open>+\<close>, \<^verbatim>\<open>*\<close> and the two conversions. Their interpretation \<open>ieee\<close>
  is defined in the section on JavaScript numbers.
\<close>

record 'n js_arith =
  js_zero :: 'n
  js_tenth :: 'n
  js_five :: 'n
  js_int :: "int \<Rightarrow> 'n"
  js_add :: "'n \<Rightarrow> 'n \<Rightarrow> 'n"
  js_mul :: "'n \<Rightarrow> 'n \<Rightarrow> 'n"
  js_number :: "'n \<Rightarrow> 'n"
  js_decimal :: "'n \<Rightarrow> 'n"

text \<open>
  A menu item carries the restaurant of its category (the source reads it through the
  join \<^verbatim>\<open>menuItem.category.restaurantId\<close>).
\<close>

record 'n MenuItem =
  mi_id :: ident
  mi_name :: string
  mi_price :: 'n
  mi_isAvailable :: bool
  mi_restaurantId :: ident

record Cart =
  cart_id :: ident
  cart_userId :: ident

record CartItem =
  ci_id :: ident
  ci_cartId :: ident
  ci_menuItemId :: ident
  ci_quantity :: int
  ci_notes :: "string option"

record 'n OrderItem =
  oi_menuItemId :: ident
  oi_quantity :: int
  oi_unitPrice :: 'n
  oi_totalPrice :: 'n
  oi_notes :: "string option"

record 'n Order =
  o_id :: ident
  o_orderNumber :: string
  o_userId :: ident
  o_restaurantId :: ident
  o_deliveryAddress :: string
  o_notes :: "string option"
  o_subtotal :: 'n
  o_tax :: 'n
  o_deliveryFee :: 'n
  o_totalAmount :: 'n
  o_status :: OrderStatus
  o_items :: "'n OrderItem list"

record Delivery =
  d_id :: ident
  d_orderId :: ident
  d_driverId :: ident
  d_estimatedTime :: "int option"
  d_status :: DeliveryStatus
  d_pickupTime :: "nat option"
  d_deliveryTime :: "nat option"

record Driver =
  dr_id :: ident
  dr_isAvailable :: bool
  dr_totalDeliveries :: int

record 'n database =
  restaurants :: "ident list"
  menuItems :: "'n MenuItem list"
  carts :: "Cart list"
  cartItems :: "CartItem list"
  orders :: "'n Order list"
  deliveries :: "Delivery list"
  drivers :: "Driver list"

text \<open>
  The store gives a new row a uuid. The model takes an identifier that no row of the
  table has: a string longer than every identifier in use.
\<close>

definition fresh_id :: "ident list \<Rightarrow> ident" where
  "fresh_id used = replicate (Suc (foldr (\<lambda>i n. max (length i) n) used 0)) (CHR ''#'')"

text \<open>
  \<^verbatim>\<open>generateOrderNumber\<close> builds \<^verbatim>\<open>ORD-<timestamp>-<random>\<close> from the clock and random
  bytes; the model builds the token from the new order's identifier.
\<close>

definition generateOrderNumber :: "ident \<Rightarrow> string" where
  "generateOrderNumber oid = ''ORD-'' @ oid"

section \<open>Order service\<close>

subsection \<open>Status transitions\<close>

fun STATUS_TRANSITIONS :: "OrderStatus \<Rightarrow> OrderStatus list" where
  "STATUS_TRANSITIONS PENDING = [CONFIRMED, CANCELLED]"
| "STATUS_TRANSITIONS CONFIRMED = [PREPARING, CANCELLED]"
| "STATUS_TRANSITIONS PREPARING = [ON_THE_WAY, CANCELLED]"
| "STATUS_TRANSITIONS ON_THE_WAY = [DELIVERED, CANCELLED]"
| "STATUS_TRANSITIONS DELIVERED = []"
| "STATUS_TRANSITIONS CANCELLED = []"

definition findOrder :: "ident \<Rightarrow> 'n database \<Rightarrow> 'n Order option" where
  "findOrder orderId db = find (\<lambda>ord. o_id ord = orderId) (orders db)"

definition setOrderStatus :: "ident \<Rightarrow> OrderStatus \<Rightarrow> 'n database \<Rightarrow> 'n database" where
  "setOrderStatus orderId st db =
     db\<lparr>orders := map (\<lambda>ord. if o_id ord = orderId then ord\<lparr>o_status := st\<rparr> else ord) (orders db)\<rparr>"

definition updateOrderStatus ::
  "ident \<Rightarrow> OrderStatus \<Rightarrow> 'n database \<Rightarrow> error + ('n Order \<times> 'n database)" where
  "updateOrderStatus orderId newStatus db =
     (case findOrder orderId db of
        None \<Rightarrow> Inl (NotFoundError ''Order not found'')
      | Some ord \<Rightarrow>
          if newStatus \<notin> set (STATUS_TRANSITIONS (o_status ord))
          then Inl (BadRequestError (''Cannot transition from '' @ orderStatusText (o_status ord)
                       @ '' to '' @ orderStatusText newStatus))
          else Inr (ord\<lparr>o_status := newStatus\<rparr>, setOrderStatus orderId newStatus db))"

definition cancelOrder ::
  "ident \<Rightarrow> ident \<Rightarrow> 'n database \<Rightarrow> error + ('n Order \<times> 'n database)" where
  "cancelOrder orderId userId db =
     (case findOrder orderId db of
        None \<Rightarrow> Inl (NotFoundError ''Order not found'')
      | Some ord \<Rightarrow>
          if o_userId ord \<noteq> userId then Inl (NotFoundError ''Order not found'')
          else if o_status ord \<notin> set [PENDING, CONFIRMED]
          then Inl (BadRequestError ''Order cannot be cancelled at this stage'')
          else updateOrderStatus orderId CANCELLED db)"

subsection \<open>Cart\<close>

text \<open>
  The cart operations return the cart as \<^verbatim>\<open>getCart\<close> shows it; the model returns the
  store they leave. \<^verbatim>\<open>a || b\<close> on notes takes \<open>b\<close> when \<open>a\<close> is undefined or empty.
\<close>

record AddToCartData =
  ac_menuItemId :: ident
  ac_quantity :: int
  ac_notes :: "string option"

record UpdateCartItemData =
  uc_quantity :: "int option"
  uc_notes :: "string option"

definition findCart :: "ident \<Rightarrow> 'n database \<Rightarrow> Cart option" where
  "findCart userId db = find (\<lambda>c. cart_userId c = userId) (carts db)"

definition findMenuItem :: "ident \<Rightarrow> 'n database \<Rightarrow> 'n MenuItem option" where
  "findMenuItem menuItemId db = find (\<lambda>m. mi_id m = menuItemId) (menuItems db)"

fun notesOr :: "string option \<Rightarrow> string option \<Rightarrow> string option" where
  "notesOr None other = other"
| "notesOr (Some n) other = (if n = [] then other else Some n)"

definition addToCart :: "ident \<Rightarrow> AddToCartData \<Rightarrow> 'n database \<Rightarrow> error + 'n database" where
  "addToCart userId data db =
     (case findMenuItem (ac_menuItemId data) db of
        None \<Rightarrow> Inl (NotFoundError ''Menu item not found'')
      | Some menuItem \<Rightarrow>
          if \<not> mi_isAvailable menuItem then Inl (BadRequestError ''Menu item is not available'')
          else
            let cart = (case findCart userId db of
                          Some c \<Rightarrow> c
                        | None \<Rightarrow> \<lparr>cart_id = fresh_id (map cart_id (carts db)), cart_userId = userId\<rparr>);
                db1 = (case findCart userId db of
                         Some c \<Rightarrow> db
                       | None \<Rightarrow> db\<lparr>carts := carts db @ [cart]\<rparr>)
            in (case find (\<lambda>ci. ci_cartId ci = cart_id cart \<and> ci_menuItemId ci = ac_menuItemId data)
                       (cartItems db1) of
                  Some existingItem \<Rightarrow>
                    Inr (db1\<lparr>cartItems :=
                      map (\<lambda>ci. if ci_id ci = ci_id existingItem
                                then ci\<lparr>ci_quantity := ci_quantity existingItem + ac_quantity data,
                                        ci_notes := notesOr (ac_notes data) (ci_notes existingItem)\<rparr>
                                else ci) (cartItems db1)\<rparr>)
                | None \<Rightarrow>
                    Inr (db1\<lparr>cartItems := cartItems db1 @
                      [\<lparr>ci_id = fresh_id (map ci_id (cartItems db1)), ci_cartId = cart_id cart,
                        ci_menuItemId = ac_menuItemId data, ci_quantity = ac_quantity data,
                        ci_notes = ac_notes data\<rparr>]\<rparr>)))"

definition updateCartItem ::
  "ident \<Rightarrow> ident \<Rightarrow> UpdateCartItemData \<Rightarrow> 'n database \<Rightarrow> error + 'n database" where
  "updateCartItem userId itemId data db =
     (case findCart userId db of
        None \<Rightarrow> Inl (NotFoundError ''Cart not found'')
      | Some cart \<Rightarrow>
          (case find (\<lambda>ci. ci_id ci = itemId \<and> ci_cartId ci = cart_id cart) (cartItems db) of
             None \<Rightarrow> Inl (NotFoundError ''Cart item not found'')
           | Some cartItem \<Rightarrow>
               if (case uc_quantity data of None \<Rightarrow> False | Some q \<Rightarrow> q \<le> 0)
               then Inr (db\<lparr>cartItems := filter (\<lambda>ci. ci_id ci \<noteq> itemId) (cartItems db)\<rparr>)
               else Inr (db\<lparr>cartItems :=
                      map (\<lambda>ci. if ci_id ci = itemId
                                then ci\<lparr>ci_quantity := (case uc_quantity data of
                                                          None \<Rightarrow> ci_quantity ci | Some q \<Rightarrow> q),
                                        ci_notes := (case uc_notes data of
                                                       None \<Rightarrow> ci_notes ci | Some n \<Rightarrow> Some n)\<rparr>
                                else ci) (cartItems db)\<rparr>)))"

definition removeFromCart :: "ident \<Rightarrow> ident \<Rightarrow> 'n database \<Rightarrow> error + 'n database" where
  "removeFromCart userId itemId db =
     (case findCart userId db of
        None \<Rightarrow> Inl (NotFoundError ''Cart not found'')
      | Some cart \<Rightarrow>
          (case find (\<lambda>ci. ci_id ci = itemId \<and> ci_cartId ci = cart_id cart) (cartItems db) of
             None \<Rightarrow> Inl (NotFoundError ''Cart item not found'')
           | Some cartItem \<Rightarrow>
               Inr (db\<lparr>cartItems := filter (\<lambda>ci. ci_id ci \<noteq> itemId) (cartItems db)\<rparr>)))"

definition deleteCartItems :: "ident \<Rightarrow> 'n database \<Rightarrow> 'n database" where
  "deleteCartItems userId db =
     (case findCart userId db of
        None \<Rightarrow> db
      | Some cart \<Rightarrow> db\<lparr>cartItems := filter (\<lambda>ci. ci_cartId ci \<noteq> cart_id cart) (cartItems db)\<rparr>)"

definition clearCart :: "ident \<Rightarrow> 'n database \<Rightarrow> error + 'n database" where
  "clearCart userId db = Inr (deleteCartItems userId db)"

subsection \<open>Order creation\<close>

record OrderItemInput =
  in_menuItemId :: ident
  in_quantity :: int
  in_notes :: "string option"

record CreateOrderData =
  cd_restaurantId :: ident
  cd_deliveryAddress :: string
  cd_notes :: "string option"
  cd_items :: "OrderItemInput list option"

text \<open>The loop over \<^verbatim>\<open>data.items\<close>: the first item that fails throws.\<close>

fun itemsFromRequest ::
  "'n js_arith \<Rightarrow> 'n database \<Rightarrow> ident \<Rightarrow> OrderItemInput list \<Rightarrow> error + 'n OrderItem list" where
  "itemsFromRequest ar db restaurantId [] = Inr []"
| "itemsFromRequest ar db restaurantId (item # rest) =
     (case findMenuItem (in_menuItemId item) db of
        None \<Rightarrow> Inl (NotFoundError (''Menu item '' @ in_menuItemId item @ '' not found''))
      | Some menuItem \<Rightarrow>
          if \<not> mi_isAvailable menuItem
          then Inl (BadRequestError (mi_name menuItem @ '' is not available''))
          else if mi_restaurantId menuItem \<noteq> restaurantId
          then Inl (BadRequestError (mi_name menuItem @ '' does not belong to this restaurant''))
          else (case itemsFromRequest ar db restaurantId rest of
                  Inl e \<Rightarrow> Inl e
                | Inr orderItems \<Rightarrow>
                    Inr (\<lparr>oi_menuItemId = in_menuItemId item, oi_quantity = in_quantity item,
                          oi_unitPrice = mi_price menuItem,
                          oi_totalPrice =
                            js_decimal ar (js_mul ar (js_number ar (mi_price menuItem))
                                             (js_int ar (in_quantity item))),
                          oi_notes = in_notes item\<rparr> # orderItems)))"

text \<open>
  The loop over the items of the cart, each read with its menu item. The store's foreign
  key gives every cart item a menu item; a row without one is a failure of the store.
\<close>

fun itemsFromCart ::
  "'n js_arith \<Rightarrow> 'n database \<Rightarrow> ident \<Rightarrow> CartItem list \<Rightarrow> error + 'n OrderItem list" where
  "itemsFromCart ar db restaurantId [] = Inr []"
| "itemsFromCart ar db restaurantId (item # rest) =
     (case findMenuItem (ci_menuItemId item) db of
        None \<Rightarrow> Inl (StoreError ''cart item without menu item'')
      | Some menuItem \<Rightarrow>
          if mi_restaurantId menuItem \<noteq> restaurantId
          then Inl (BadRequestError ''All items must be from the same restaurant'')
          else if \<not> mi_isAvailable menuItem
          then Inl (BadRequestError (mi_name menuItem @ '' is no longer available''))
          else (case itemsFromCart ar db restaurantId rest of
                  Inl e \<Rightarrow> Inl e
                | Inr orderItems \<Rightarrow>
                    Inr (\<lparr>oi_menuItemId = ci_menuItemId item, oi_quantity = ci_quantity item,
                          oi_unitPrice = mi_price menuItem,
                          oi_totalPrice =
                            js_decimal ar (js_mul ar (js_number ar (mi_price menuItem))
                                             (js_int ar (ci_quantity item))),
                          oi_notes = notesOr (ci_notes item) None\<rparr> # orderItems)))"

definition cartItemsOf :: "ident \<Rightarrow> 'n database \<Rightarrow> CartItem list option" where
  "cartItemsOf userId db =
     (case findCart userId db of
        None \<Rightarrow> None
      | Some cart \<Rightarrow> Some (filter (\<lambda>ci. ci_cartId ci = cart_id cart) (cartItems db)))"

definition collectFromCart ::
  "'n js_arith \<Rightarrow> ident \<Rightarrow> CreateOrderData \<Rightarrow> 'n database \<Rightarrow> error + 'n OrderItem list" where
  "collectFromCart ar userId data db =
     (case cartItemsOf userId db of
        None \<Rightarrow> Inl (BadRequestError ''Cart is empty'')
      | Some its \<Rightarrow>
          if length its = 0 then Inl (BadRequestError ''Cart is empty'')
          else itemsFromCart ar db (cd_restaurantId data) its)"

text \<open>\<^verbatim>\<open>if (data.items && data.items.length > 0) { ... } else { ... }\<close>\<close>

definition collectOrderItems ::
  "'n js_arith \<Rightarrow> ident \<Rightarrow> CreateOrderData \<Rightarrow> 'n database \<Rightarrow> error + 'n OrderItem list" where
  "collectOrderItems ar userId data db =
     (case cd_items data of
        None \<Rightarrow> collectFromCart ar userId data db
      | Some its \<Rightarrow>
          if length its > 0 then itemsFromRequest ar db (cd_restaurantId data) its
          else collectFromCart ar userId data db)"

text \<open>
  The totals and the row that \<^verbatim>\<open>tx.order.create\<close> writes.
  Modelled from the spec: the schema of the store is not among the sources; its Decimal
  columns keep the value they are given (two-decimal rounding is \<^emph>\<open>at presentation, not
  storage\<close>).
\<close>

definition newOrder ::
  "'n js_arith \<Rightarrow> ident \<Rightarrow> CreateOrderData \<Rightarrow> 'n OrderItem list \<Rightarrow> 'n database \<Rightarrow> 'n Order" where
  "newOrder ar userId data orderItems db =
     (let subtotal = foldl (\<lambda>sum item. js_add ar sum (js_number ar (oi_totalPrice item)))
                       (js_zero ar) orderItems;
          tax = js_mul ar subtotal (js_tenth ar);
          deliveryFee = js_five ar;
          totalAmount = js_add ar (js_add ar subtotal tax) deliveryFee;
          oid = fresh_id (map o_id (orders db))
      in \<lparr>o_id = oid, o_orderNumber = generateOrderNumber oid, o_userId = userId,
          o_restaurantId = cd_restaurantId data, o_deliveryAddress = cd_deliveryAddress data,
          o_notes = cd_notes data, o_subtotal = js_decimal ar subtotal,
          o_tax = js_decimal ar tax, o_deliveryFee = js_decimal ar deliveryFee,
          o_totalAmount = js_decimal ar totalAmount, o_status = PENDING,
          o_items = orderItems\<rparr>)"

definition createOrder ::
  "'n js_arith \<Rightarrow> ident \<Rightarrow> CreateOrderData \<Rightarrow> 'n database \<Rightarrow> error + ('n Order \<times> 'n database)" where
  "createOrder ar userId data db =
     (if cd_restaurantId data \<notin> set (restaurants db)
      then Inl (NotFoundError ''Restaurant not found'')
      else (case collectOrderItems ar userId data db of
              Inl e \<Rightarrow> Inl e
            | Inr orderItems \<Rightarrow>
                let ord = newOrder ar userId data orderItems db;
                    db1 = db\<lparr>orders := orders db @ [ord]\<rparr>;
                    db2 = (if (case cd_items data of None \<Rightarrow> True | Some its \<Rightarrow> length its = 0)
                           then deleteCartItems userId db1 else db1)
                in Inr (ord, db2)))"

section \<open>Delivery service\<close>

fun DELIVERY_STATUS_TRANSITIONS :: "DeliveryStatus \<Rightarrow> DeliveryStatus list" where
  "DELIVERY_STATUS_TRANSITIONS ASSIGNED = [PICKED_UP]"
| "DELIVERY_STATUS_TRANSITIONS PICKED_UP = [IN_TRANSIT]"
| "DELIVERY_STATUS_TRANSITIONS IN_TRANSIT = [DELIVERED_delivery]"
| "DELIVERY_STATUS_TRANSITIONS DELIVERED_delivery = []"

definition findDriver :: "ident \<Rightarrow> 'n database \<Rightarrow> Driver option" where
  "findDriver driverId db = find (\<lambda>dr. dr_id dr = driverId) (drivers db)"

definition findDelivery :: "ident \<Rightarrow> 'n database \<Rightarrow> Delivery option" where
  "findDelivery deliveryId db = find (\<lambda>d. d_id d = deliveryId) (deliveries db)"

text \<open>The relation \<^verbatim>\<open>order.delivery\<close>: the delivery row that names the order.\<close>

definition deliveryOfOrder :: "ident \<Rightarrow> 'n database \<Rightarrow> Delivery option" where
  "deliveryOfOrder orderId db = find (\<lambda>d. d_orderId d = orderId) (deliveries db)"

definition setDriver :: "ident \<Rightarrow> (Driver \<Rightarrow> Driver) \<Rightarrow> 'n database \<Rightarrow> 'n database" where
  "setDriver driverId f db =
     db\<lparr>drivers := map (\<lambda>dr. if dr_id dr = driverId then f dr else dr) (drivers db)\<rparr>"

definition assignDriver ::
  "ident \<Rightarrow> ident \<Rightarrow> int option \<Rightarrow> 'n database \<Rightarrow> error + (Delivery \<times> 'n database)" where
  "assignDriver orderId driverId estimatedTime db =
     (case findOrder orderId db of
        None \<Rightarrow> Inl (NotFoundError ''Order not found'')
      | Some ord \<Rightarrow>
          if o_status ord \<noteq> PREPARING \<and> o_status ord \<noteq> CONFIRMED
          then Inl (BadRequestError ''Order is not ready for delivery assignment'')
          else if deliveryOfOrder orderId db \<noteq> None
          then Inl (BadRequestError ''Order already has a delivery assigned'')
          else (case findDriver driverId db of
                  None \<Rightarrow> Inl (NotFoundError ''Driver not found'')
                | Some driver \<Rightarrow>
                    if \<not> dr_isAvailable driver then Inl (BadRequestError ''Driver is not available'')
                    else
                      let newDelivery = \<lparr>d_id = fresh_id (map d_id (deliveries db)),
                                         d_orderId = orderId, d_driverId = driverId,
                                         d_estimatedTime = estimatedTime, d_status = ASSIGNED,
                                         d_pickupTime = None, d_deliveryTime = None\<rparr>;
                          db1 = db\<lparr>deliveries := deliveries db @ [newDelivery]\<rparr>;
                          db2 = (if o_status ord = PREPARING
                                 then setOrderStatus orderId ON_THE_WAY db1 else db1);
                          db3 = setDriver driverId (\<lambda>dr. dr\<lparr>dr_isAvailable := False\<rparr>) db2
                      in Inr (newDelivery, db3)))"

text \<open>
  \<^verbatim>\<open>updateDeliveryStatus\<close> reads the clock for the two timestamps: \<open>now\<close> is the time of
  the call. The updates of the order and of the driver inside the transaction fail, with
  the whole transaction, when the row is not in the store.
\<close>

definition updateDeliveryStatus ::
  "nat \<Rightarrow> ident \<Rightarrow> DeliveryStatus \<Rightarrow> 'n database \<Rightarrow> error + (Delivery \<times> 'n database)" where
  "updateDeliveryStatus now deliveryId newStatus db =
     (case findDelivery deliveryId db of
        None \<Rightarrow> Inl (NotFoundError ''Delivery not found'')
      | Some delivery \<Rightarrow>
          if newStatus \<notin> set (DELIVERY_STATUS_TRANSITIONS (d_status delivery))
          then Inl (BadRequestError (''Cannot transition from '' @ deliveryStatusText (d_status delivery)
                       @ '' to '' @ deliveryStatusText newStatus))
          else
            let updateData = (\<lambda>d.
                  if newStatus = PICKED_UP then d\<lparr>d_status := newStatus, d_pickupTime := Some now\<rparr>
                  else if newStatus = DELIVERED_delivery
                  then d\<lparr>d_status := newStatus, d_deliveryTime := Some now\<rparr>
                  else d\<lparr>d_status := newStatus\<rparr>);
                db1 = db\<lparr>deliveries :=
                        map (\<lambda>d. if d_id d = deliveryId then updateData d else d) (deliveries db)\<rparr>
            in if newStatus = DELIVERED_delivery
               then (if findOrder (d_orderId delivery) db1 = None
                     then Inl (StoreError ''Record to update not found'')
                     else if findDriver (d_driverId delivery) db1 = None
                     then Inl (StoreError ''Record to update not found'')
                     else Inr (updateData delivery,
                            setDriver (d_driverId delivery)
                              (\<lambda>dr. dr\<lparr>dr_isAvailable := True,
                                        dr_totalDeliveries := dr_totalDeliveries dr + 1\<rparr>)
                              (setOrderStatus (d_orderId delivery) DELIVERED db1)))
               else Inr (updateData delivery, db1))"

definition activeDelivery :: "ident \<Rightarrow> 'n database \<Rightarrow> Delivery option" where
  "activeDelivery driverId db =
     find (\<lambda>d. d_driverId d = driverId \<and> d_status d \<in> set [ASSIGNED, PICKED_UP, IN_TRANSIT])
       (deliveries db)"

definition updateDriverAvailability ::
  "ident \<Rightarrow> bool \<Rightarrow> 'n database \<Rightarrow> error + (Driver \<times> 'n database)" where
  "updateDriverAvailability driverId isAvailable db =
     (case findDriver driverId db of
        None \<Rightarrow> Inl (NotFoundError ''Driver not found'')
      | Some driver \<Rightarrow>
          if \<not> isAvailable \<and> activeDelivery driverId db \<noteq> None
          then Inl (BadRequestError ''Cannot go offline with active delivery'')
          else Inr (driver\<lparr>dr_isAvailable := isAvailable\<rparr>,
                    setDriver driverId (\<lambda>dr. dr\<lparr>dr_isAvailable := isAvailable\<rparr>) db))"

section \<open>Queue service\<close>

text \<open>
  The key-value store holds the list \<^verbatim>\<open>order:queue\<close>, the single slot
  \<^verbatim>\<open>order:processing\<close> and one entry \<^verbatim>\<open>order:client:<userId>:<clientId>\<close> per synced
  order, each with the time at which it expires. Queue items and entries are the JSON
  text of records (\<^verbatim>\<open>JSON.stringify\<close>, read back with \<^verbatim>\<open>JSON.parse\<close>); the model keeps the
  records. \<^verbatim>\<open>createdAt\<close> is the time \<^verbatim>\<open>new Date(createdAt).getTime()\<close> reads from the
  validated datetime string. Times are in seconds, and a call runs at one time \<open>now\<close>.
\<close>

record SyncRequest =
  rq_clientId :: string
  rq_restaurantId :: ident
  rq_deliveryAddress :: string
  rq_notes :: "string option"
  rq_items :: "OrderItemInput list"
  rq_createdAt :: int

record QueuedOrder = SyncRequest +
  rq_userId :: ident

record QueueResult =
  qr_clientId :: string
  qr_success :: bool
  qr_orderId :: "ident option"
  qr_orderNumber :: "string option"
  qr_error :: "string option"

record ClientMapping =
  cm_orderId :: ident
  cm_orderNumber :: string

type_synonym redis_entries = "string \<Rightarrow> (ClientMapping \<times> nat) option"

record 'n world =
  w_db :: "'n database"
  w_queue :: "QueuedOrder list"
  w_processing :: "QueuedOrder option"
  w_clients :: redis_entries
  w_isProcessing :: bool

definition redis_get :: "nat \<Rightarrow> redis_entries \<Rightarrow> string \<Rightarrow> ClientMapping option" where
  "redis_get now entries key =
     (case entries key of
        None \<Rightarrow> None
      | Some (v, expiresAt) \<Rightarrow> if now < expiresAt then Some v else None)"

definition redis_setex :: "nat \<Rightarrow> redis_entries \<Rightarrow> string \<Rightarrow> nat \<Rightarrow> ClientMapping \<Rightarrow> redis_entries" where
  "redis_setex now entries key ttl v = entries(key \<mapsto> (v, now + ttl))"

definition existingKey :: "ident \<Rightarrow> string \<Rightarrow> string" where
  "existingKey userId clientId = ''order:client:'' @ userId @ '':'' @ clientId"

definition orderData :: "('a SyncRequest_scheme) \<Rightarrow> CreateOrderData" where
  "orderData order =
     \<lparr>cd_restaurantId = rq_restaurantId order, cd_deliveryAddress = rq_deliveryAddress order,
      cd_notes = rq_notes order, cd_items = Some (rq_items order)\<rparr>"

definition successResult :: "string \<Rightarrow> ident \<Rightarrow> string \<Rightarrow> QueueResult" where
  "successResult clientId orderId orderNumber =
     \<lparr>qr_clientId = clientId, qr_success = True, qr_orderId = Some orderId,
      qr_orderNumber = Some orderNumber, qr_error = None\<rparr>"

definition failureResult :: "string \<Rightarrow> error \<Rightarrow> QueueResult" where
  "failureResult clientId e =
     \<lparr>qr_clientId = clientId, qr_success = False, qr_orderId = None,
      qr_orderNumber = None, qr_error = Some (message e)\<rparr>"

subsection \<open>The background queue\<close>

definition enqueueOrders :: "ident \<Rightarrow> QueuedOrder list \<Rightarrow> 'n world \<Rightarrow> 'n world" where
  "enqueueOrders userId ords w =
     w\<lparr>w_queue := w_queue w @ map (\<lambda>order. order\<lparr>rq_userId := userId\<rparr>) ords\<rparr>"

text \<open>
  One turn of the loop of \<^verbatim>\<open>processQueue\<close> after the item has been popped: set the
  marker, create the order inside \<^verbatim>\<open>try\<close>, record the result in either branch, delete the
  marker in \<^verbatim>\<open>finally\<close>.
\<close>

definition processItem :: "'n js_arith \<Rightarrow> QueuedOrder \<Rightarrow> 'n world \<Rightarrow> QueueResult \<times> 'n world" where
  "processItem ar item w =
     (let w1 = w\<lparr>w_processing := Some item\<rparr>
      in (case createOrder ar (rq_userId item) (orderData item) (w_db w1) of
            Inr (createdOrder, db') \<Rightarrow>
              (successResult (rq_clientId item) (o_id createdOrder) (o_orderNumber createdOrder),
               w1\<lparr>w_db := db', w_processing := None\<rparr>)
          | Inl e \<Rightarrow>
              (failureResult (rq_clientId item) e, w1\<lparr>w_processing := None\<rparr>)))"

lemma processItem_queue [simp]: "w_queue (snd (processItem ar item w)) = w_queue w"
  by (simp add: processItem_def Let_def split: sum.split prod.split)

function drainLoop ::
  "'n js_arith \<Rightarrow> QueueResult list \<Rightarrow> 'n world \<Rightarrow> QueueResult list \<times> 'n world" where
  "drainLoop ar results w =
     (case w_queue w of
        [] \<Rightarrow> (results, w)
      | item # rest \<Rightarrow>
          drainLoop ar (results @ [fst (processItem ar item (w\<lparr>w_queue := rest\<rparr>))])
            (snd (processItem ar item (w\<lparr>w_queue := rest\<rparr>))))"
  by pat_completeness auto
termination
  by (relation "measure (\<lambda>(ar, results, w). length (w_queue w))") auto

declare drainLoop.simps [simp del]

definition processQueue :: "'n js_arith \<Rightarrow> 'n world \<Rightarrow> QueueResult list \<times> 'n world" where
  "processQueue ar w =
     (if w_isProcessing w then ([], w)
      else (case drainLoop ar [] (w\<lparr>w_isProcessing := True\<rparr>) of
              (results, w') \<Rightarrow> (results, w'\<lparr>w_isProcessing := False\<rparr>)))"

text \<open>
  The replay the specification describes, written directly on the list of queued items:
  head first, one call of \<open>createOrder\<close> per item, and an item that fails is recorded and
  passed over.
\<close>

fun fifoReplay ::
  "'n js_arith \<Rightarrow> QueuedOrder list \<Rightarrow> 'n database \<Rightarrow> QueueResult list \<times> 'n database" where
  "fifoReplay ar [] db = ([], db)"
| "fifoReplay ar (item # rest) db =
     (case createOrder ar (rq_userId item) (orderData item) db of
        Inr (createdOrder, db') \<Rightarrow>
          (successResult (rq_clientId item) (o_id createdOrder) (o_orderNumber createdOrder)
             # fst (fifoReplay ar rest db'),
           snd (fifoReplay ar rest db'))
      | Inl e \<Rightarrow>
          (failureResult (rq_clientId item) e # fst (fifoReplay ar rest db),
           snd (fifoReplay ar rest db)))"

subsection \<open>Offline synchronisation\<close>

text \<open>
  \<^verbatim>\<open>[...orders].sort((a, b) => time(a) - time(b))\<close> is a stable sort by creation time.
\<close>

fun syncLoop ::
  "nat \<Rightarrow> 'n js_arith \<Rightarrow> ident \<Rightarrow> SyncRequest list \<Rightarrow> QueueResult list \<Rightarrow> 'n world
     \<Rightarrow> QueueResult list \<times> 'n world" where
  "syncLoop now ar userId [] results w = (results, w)"
| "syncLoop now ar userId (order # rest) results w =
     (case redis_get now (w_clients w) (existingKey userId (rq_clientId order)) of
        Some existingOrder \<Rightarrow>
          syncLoop now ar userId rest
            (results @ [successResult (rq_clientId order) (cm_orderId existingOrder)
                          (cm_orderNumber existingOrder)]) w
      | None \<Rightarrow>
          (case createOrder ar userId (orderData order) (w_db w) of
             Inr (createdOrder, db') \<Rightarrow>
               syncLoop now ar userId rest
                 (results @ [successResult (rq_clientId order) (o_id createdOrder)
                               (o_orderNumber createdOrder)])
                 (w\<lparr>w_db := db',
                    w_clients := redis_setex now (w_clients w)
                      (existingKey userId (rq_clientId order)) 86400
                      \<lparr>cm_orderId = o_id createdOrder,
                       cm_orderNumber = o_orderNumber createdOrder\<rparr>\<rparr>)
           | Inl e \<Rightarrow>
               syncLoop now ar userId rest (results @ [failureResult (rq_clientId order) e]) w))"

definition syncOrders ::
  "nat \<Rightarrow> 'n js_arith \<Rightarrow> ident \<Rightarrow> SyncRequest list \<Rightarrow> 'n world \<Rightarrow> QueueResult list \<times> 'n world" where
  "syncOrders now ar userId ords w = syncLoop now ar userId (sort_key rq_createdAt ords) [] w"

text \<open>
  The body of the loop of \<open>syncOrders\<close> as a function of its own, and the loop as a
  recursion that returns the results in order; \<open>syncLoop_syncRun\<close> below shows they are the
  loop of the source. A request is accepted in a store when \<open>createOrder\<close> returns an order
  for it there.
\<close>

definition syncItem ::
  "nat \<Rightarrow> 'n js_arith \<Rightarrow> ident \<Rightarrow> SyncRequest \<Rightarrow> 'n world \<Rightarrow> QueueResult \<times> 'n world" where
  "syncItem now ar userId order w =
     (case redis_get now (w_clients w) (existingKey userId (rq_clientId order)) of
        Some existingOrder \<Rightarrow>
          (successResult (rq_clientId order) (cm_orderId existingOrder)
             (cm_orderNumber existingOrder), w)
      | None \<Rightarrow>
          (case createOrder ar userId (orderData order) (w_db w) of
             Inr (createdOrder, db') \<Rightarrow>
               (successResult (rq_clientId order) (o_id createdOrder) (o_orderNumber createdOrder),
                w\<lparr>w_db := db',
                  w_clients := redis_setex now (w_clients w)
                    (existingKey userId (rq_clientId order)) 86400
                    \<lparr>cm_orderId = o_id createdOrder,
                     cm_orderNumber = o_orderNumber createdOrder\<rparr>\<rparr>)
           | Inl e \<Rightarrow> (failureResult (rq_clientId order) e, w)))"

fun syncRun ::
  "nat \<Rightarrow> 'n js_arith \<Rightarrow> ident \<Rightarrow> SyncRequest list \<Rightarrow> 'n world \<Rightarrow> QueueResult list \<times> 'n world" where
  "syncRun now ar userId [] w = ([], w)"
| "syncRun now ar userId (order # rest) w =
     (fst (syncItem now ar userId order w)
        # fst (syncRun now ar userId rest (snd (syncItem now ar userId order w))),
      snd (syncRun now ar userId rest (snd (syncItem now ar userId order w))))"

definition accepts :: "'n js_arith \<Rightarrow> ident \<Rightarrow> SyncRequest \<Rightarrow> 'n database \<Rightarrow> bool" where
  "accepts ar userId order db =
     (case createOrder ar userId (orderData order) db of Inl e \<Rightarrow> False | Inr r \<Rightarrow> True)"

text \<open>
  An order is the one created for a request of a customer when it carries the customer,
  the restaurant, the address and the notes of the request and one item per requested
  item, with its menu item and quantity.
\<close>

definition createdFor :: "ident \<Rightarrow> SyncRequest \<Rightarrow> 'n Order \<Rightarrow> bool" where
  "createdFor userId order ord =
     (o_userId ord = userId \<and> o_restaurantId ord = rq_restaurantId order
      \<and> o_deliveryAddress ord = rq_deliveryAddress order \<and> o_notes ord = rq_notes order
      \<and> map oi_menuItemId (o_items ord) = map in_menuItemId (rq_items order)
      \<and> map oi_quantity (o_items ord) = map in_quantity (rq_items order))"




text \<open>
  An order item is a snapshot when its unit price is the price of its menu item in the
  store and its total price is the Decimal of the product of the unit price, read as a
  number, and the quantity.
\<close>

definition snapshotLine :: "'n js_arith \<Rightarrow> 'n database \<Rightarrow> 'n OrderItem \<Rightarrow> bool" where
  "snapshotLine ar db item =
     (case findMenuItem (oi_menuItemId item) db of
        None \<Rightarrow> False
      | Some menuItem \<Rightarrow>
          oi_unitPrice item = mi_price menuItem
          \<and> oi_totalPrice item
              = js_decimal ar (js_mul ar (js_number ar (oi_unitPrice item))
                                 (js_int ar (oi_quantity item))))"

section \<open>Sequences of operations\<close>

text \<open>
  A call that throws leaves the store as it was: the services check before they write, and
  a transaction that fails is rolled back.
\<close>

datatype operation =
    UpdateOrderStatus ident OrderStatus
  | CancelOrder ident ident
  | AssignDriver ident ident "int option"
  | UpdateDeliveryStatus ident DeliveryStatus
  | UpdateDriverAvailability ident bool

fun perform :: "nat \<Rightarrow> operation \<Rightarrow> 'n database \<Rightarrow> 'n database" where
  "perform now (UpdateOrderStatus orderId st) db =
     (case updateOrderStatus orderId st db of Inl e \<Rightarrow> db | Inr (r, db') \<Rightarrow> db')"
| "perform now (CancelOrder orderId userId) db =
     (case cancelOrder orderId userId db of Inl e \<Rightarrow> db | Inr (r, db') \<Rightarrow> db')"
| "perform now (AssignDriver orderId driverId et) db =
     (case assignDriver orderId driverId et db of Inl e \<Rightarrow> db | Inr (r, db') \<Rightarrow> db')"
| "perform now (UpdateDeliveryStatus deliveryId st) db =
     (case updateDeliveryStatus now deliveryId st db of Inl e \<Rightarrow> db | Inr (r, db') \<Rightarrow> db')"
| "perform now (UpdateDriverAvailability driverId b) db =
     (case updateDriverAvailability driverId b db of Inl e \<Rightarrow> db | Inr (r, db') \<Rightarrow> db')"

fun performAll :: "nat \<Rightarrow> operation list \<Rightarrow> 'n database \<Rightarrow> 'n database" where
  "performAll now [] db = db"
| "performAll now (x # xs) db = performAll now xs (perform now x db)"

fun orderStatuses :: "nat \<Rightarrow> ident \<Rightarrow> operation list \<Rightarrow> 'n database \<Rightarrow> OrderStatus option list" where
  "orderStatuses now orderId [] db = [map_option o_status (findOrder orderId db)]"
| "orderStatuses now orderId (x # xs) db =
     map_option o_status (findOrder orderId db) # orderStatuses now orderId xs (perform now x db)"

datatype cart_operation =
    AddToCart ident AddToCartData
  | UpdateCartItem ident ident UpdateCartItemData
  | RemoveFromCart ident ident
  | ClearCart ident

fun performCart :: "cart_operation \<Rightarrow> 'n database \<Rightarrow> 'n database" where
  "performCart (AddToCart userId data) db =
     (case addToCart userId data db of Inl e \<Rightarrow> db | Inr db' \<Rightarrow> db')"
| "performCart (UpdateCartItem userId itemId data) db =
     (case updateCartItem userId itemId data db of Inl e \<Rightarrow> db | Inr db' \<Rightarrow> db')"
| "performCart (RemoveFromCart userId itemId) db =
     (case removeFromCart userId itemId db of Inl e \<Rightarrow> db | Inr db' \<Rightarrow> db')"
| "performCart (ClearCart userId) db =
     (case clearCart userId db of Inl e \<Rightarrow> db | Inr db' \<Rightarrow> db')"

fun performCartAll :: "cart_operation list \<Rightarrow> 'n database \<Rightarrow> 'n database" where
  "performCartAll [] db = db"
| "performCartAll (x # xs) db = performCartAll xs (performCart x db)"

definition lineKey :: "CartItem \<Rightarrow> ident \<times> ident" where
  "lineKey ci = (ci_cartId ci, ci_menuItemId ci)"

definition uniqueKeys :: "CartItem list \<Rightarrow> bool" where
  "uniqueKeys lines = distinct (map lineKey lines)"

definition uniqueLines :: "'n database \<Rightarrow> bool" where
  "uniqueLines db = uniqueKeys (cartItems db)"

definition linesOk :: "CartItem list \<Rightarrow> bool" where
  "linesOk lines = (distinct (map lineKey lines) \<and> list_all (\<lambda>ci. 1 \<le> ci_quantity ci) lines)"

definition cartInvariant :: "'n database \<Rightarrow> bool" where
  "cartInvariant db = linesOk (cartItems db)"

fun validatedAdd :: "cart_operation \<Rightarrow> bool" where
  "validatedAdd (AddToCart userId data) = (0 < ac_quantity data)"
| "validatedAdd other = True"

section \<open>JavaScript numbers\<close>

text \<open>
  A JavaScript number is an IEEE 754 double: a rational, or one of
  \<^verbatim>\<open>Infinity\<close>, \<^verbatim>\<open>-Infinity\<close> and \<^verbatim>\<open>NaN\<close>, which arithmetic never turns back into a rational
  and which are one value \<open>NotFinite\<close> here; the two zeros are one value as well. A
  \<^verbatim>\<open>Decimal\<close> is a rational too, or not finite. Every operation gives the double nearest to
  the exact result, a tie going to the even one (\<open>nearestDouble\<close>).
\<close>

datatype number = Finite rat | NotFinite

text \<open>The number of digits of a positive integer in base \<open>b\<close>.\<close>

function digitCount :: "int \<Rightarrow> int \<Rightarrow> int" where
  "digitCount b n = (if 1 < b \<and> 0 < n then digitCount b (n div b) + 1 else 0)"
  by auto
termination
  by (relation "measure (\<lambda>(b, n). nat n)") (auto simp add: int_div_less_self)

declare digitCount.simps [simp del]

text \<open>For a positive \<open>x\<close>, the exponent of the largest power of \<open>b\<close> that is at most \<open>x\<close>.\<close>

definition magnitude :: "int \<Rightarrow> rat \<Rightarrow> int" where
  "magnitude b x = (if 1 \<le> x then digitCount b \<lfloor>x\<rfloor> - 1 else - digitCount b (\<lceil>1 / x\<rceil> - 1))"

text \<open>Rounding to the nearest integer, a tie to the even one.\<close>

definition nearestEven :: "int \<Rightarrow> rat \<Rightarrow> int" where
  "nearestEven n x =
     (if x - of_int n < 1 / 2 then n else if 1 / 2 < x - of_int n then n + 1
      else if even n then n else n + 1)"

definition roundHalfEven :: "rat \<Rightarrow> int" where
  "roundHalfEven x = nearestEven \<lfloor>x\<rfloor> x"

definition roundTo :: "rat \<Rightarrow> rat \<Rightarrow> rat" where
  "roundTo u x = of_int (roundHalfEven (x / u)) * u"

text \<open>
  The distance between neighbouring doubles around a positive \<open>x\<close>: 53 significant bits,
  and 2 to the power -1074 below the normal range. A result of 2 to the power 1024 or more
  overflows.
\<close>

definition spacing :: "rat \<Rightarrow> rat" where
  "spacing x = 2 powi max (magnitude 2 x - 52) (- 1074)"

definition inRange :: "rat \<Rightarrow> number" where
  "inRange r = (if r < 2 ^ 1024 then Finite r else NotFinite)"

definition roundPositive :: "rat \<Rightarrow> number" where
  "roundPositive x = inRange (roundTo (spacing x) x)"

fun negate :: "number \<Rightarrow> number" where
  "negate (Finite x) = Finite (- x)"
| "negate NotFinite = NotFinite"

definition nearestDouble :: "rat \<Rightarrow> number" where
  "nearestDouble x = (if x = 0 then Finite 0 else if 0 < x then roundPositive x
                      else negate (roundPositive (- x)))"

text \<open>
  \<^verbatim>\<open>Number.prototype.toString\<close>, which the constructor of \<^verbatim>\<open>Decimal\<close> reads a number through:
  the decimal with the fewest significant digits that reads back as the number, and among
  those of that length the one nearest to it. With \<open>k\<close> digits the candidates are the two
  multiples of 10 to the power \<open>n - k\<close> around the number, \<open>n\<close> being the position of its
  leading digit;
  17 digits identify every double.
\<close>

definition nearer :: "rat \<Rightarrow> rat \<Rightarrow> rat \<Rightarrow> rat \<Rightarrow> rat" where
  "nearer g x lo hi =
     (if x - lo < hi - x then lo else if hi - x < x - lo then hi
      else if even \<lfloor>lo / g\<rfloor> then lo else hi)"

fun pick :: "rat \<Rightarrow> rat \<Rightarrow> rat \<Rightarrow> rat \<Rightarrow> bool \<Rightarrow> bool \<Rightarrow> rat option" where
  "pick g x lo hi True True = Some (nearer g x lo hi)"
| "pick g x lo hi True False = Some lo"
| "pick g x lo hi False True = Some hi"
| "pick g x lo hi False False = None"

definition below :: "rat \<Rightarrow> rat \<Rightarrow> rat" where
  "below g x = of_int \<lfloor>x / g\<rfloor> * g"

definition candidate :: "rat \<Rightarrow> rat \<Rightarrow> rat option" where
  "candidate g x =
     pick g x (below g x) (below g x + g)
       (nearestDouble (below g x) = Finite x) (nearestDouble (below g x + g) = Finite x)"

fun shortest :: "nat list \<Rightarrow> int \<Rightarrow> rat \<Rightarrow> rat" where
  "shortest [] n x = x"
| "shortest (k # ks) n x =
     (case candidate (10 powi (n - int k)) x of Some c \<Rightarrow> c | None \<Rightarrow> shortest ks n x)"

definition shortestDecimal :: "rat \<Rightarrow> rat" where
  "shortestDecimal x =
     (if x = 0 then 0
      else if 0 < x then shortest [1..<18] (magnitude 10 x + 1) x
      else - shortest [1..<18] (magnitude 10 (- x) + 1) (- x))"

text \<open>The arithmetic of numbers, the value of a Decimal as a number, and back.\<close>

fun num_add :: "number \<Rightarrow> number \<Rightarrow> number" where
  "num_add (Finite x) (Finite y) = nearestDouble (x + y)"
| "num_add a b = NotFinite"

fun num_mul :: "number \<Rightarrow> number \<Rightarrow> number" where
  "num_mul (Finite x) (Finite y) = nearestDouble (x * y)"
| "num_mul a b = NotFinite"

fun toNumber :: "number \<Rightarrow> number" where
  "toNumber (Finite x) = nearestDouble x"
| "toNumber NotFinite = NotFinite"

fun toDecimal :: "number \<Rightarrow> number" where
  "toDecimal (Finite x) = Finite (shortestDecimal x)"
| "toDecimal NotFinite = NotFinite"

definition ieee :: "number js_arith" where
  "ieee = \<lparr>js_zero = Finite 0, js_tenth = nearestDouble (1 / 10), js_five = Finite 5,
            js_int = (\<lambda>quantity. nearestDouble (of_int quantity)),
            js_add = num_add, js_mul = num_mul, js_number = toNumber, js_decimal = toDecimal\<rparr>"

text \<open>
  The sum of a list of Decimals as the source computes it: from 0, left to right, each
  read as a number.
\<close>

definition doubleSum :: "number list \<Rightarrow> number" where
  "doubleSum prices = foldl (\<lambda>sum price. num_add sum (toNumber price)) (Finite 0) prices"

text \<open>The order a call returns, if it returns one.\<close>

fun created :: "error + ('n Order \<times> 'n database) \<Rightarrow> 'n Order option" where
  "created (Inr (ord, db)) = Some ord"
| "created (Inl e) = None"

section \<open>Example data\<close>

definition demo_order :: "number Order" where
  "demo_order =
     \<lparr>o_id = ''o1'', o_orderNumber = ''ORD-1'', o_userId = ''u1'', o_restaurantId = ''r1'',
      o_deliveryAddress = ''1 Main Street'', o_notes = None, o_subtotal = Finite 10,
      o_tax = Finite 1, o_deliveryFee = Finite 5, o_totalAmount = Finite 16, o_status = PENDING,
      o_items = []\<rparr>"

definition demo_db :: "number database" where
  "demo_db =
     \<lparr>restaurants = [''r1''],
      menuItems = [\<lparr>mi_id = ''m1'', mi_name = ''Soup'', mi_price = Finite (899 / 100),
                    mi_isAvailable = True, mi_restaurantId = ''r1''\<rparr>,
                   \<lparr>mi_id = ''m2'', mi_name = ''Cake'', mi_price = Finite 5,
                    mi_isAvailable = False, mi_restaurantId = ''r1''\<rparr>],
      carts = [\<lparr>cart_id = ''c1'', cart_userId = ''u1''\<rparr>],
      cartItems = [\<lparr>ci_id = ''i1'', ci_cartId = ''c1'', ci_menuItemId = ''m1'',
                    ci_quantity = 2, ci_notes = None\<rparr>],
      orders = [demo_order, demo_order\<lparr>o_id := ''o2'', o_status := PREPARING\<rparr>],
      deliveries = [],
      drivers = [\<lparr>dr_id = ''d1'', dr_isAvailable = True, dr_totalDeliveries = 0\<rparr>,
                 \<lparr>dr_id = ''d2'', dr_isAvailable = False, dr_totalDeliveries = 3\<rparr>]\<rparr>"

definition demo_assigned_db :: "number database" where
  "demo_assigned_db =
     demo_db\<lparr>deliveries :=
       [\<lparr>d_id = ''dl1'', d_orderId = ''o2'', d_driverId = ''d2'', d_estimatedTime = None,
         d_status = ASSIGNED, d_pickupTime = None, d_deliveryTime = None\<rparr>]\<rparr>"

definition demo_data :: CreateOrderData where
  "demo_data = \<lparr>cd_restaurantId = ''r1'', cd_deliveryAddress = ''1 Main Street'',
                 cd_notes = None, cd_items = None\<rparr>"

definition demo_cart_ops :: "cart_operation list" where
  "demo_cart_ops =
     [AddToCart ''u1'' \<lparr>ac_menuItemId = ''m1'', ac_quantity = 3, ac_notes = None\<rparr>,
      AddToCart ''u2'' \<lparr>ac_menuItemId = ''m1'', ac_quantity = 1, ac_notes = Some ''hot''\<rparr>,
      UpdateCartItem ''u1'' ''i1'' \<lparr>uc_quantity = Some (- 4), uc_notes = None\<rparr>,
      RemoveFromCart ''u2'' ''i1'',
      ClearCart ''u2'']"

definition demo_queue :: "QueuedOrder list" where
  "demo_queue =
     [\<lparr>rq_clientId = ''a'', rq_restaurantId = ''r1'', rq_deliveryAddress = ''1 Main Street'',
       rq_notes = None,
       rq_items = [\<lparr>in_menuItemId = ''m1'', in_quantity = 1, in_notes = None\<rparr>],
       rq_createdAt = 20, rq_userId = ''u1''\<rparr>,
      \<lparr>rq_clientId = ''b'', rq_restaurantId = ''r9'', rq_deliveryAddress = ''2 Main Street'',
       rq_notes = None,
       rq_items = [\<lparr>in_menuItemId = ''m1'', in_quantity = 1, in_notes = None\<rparr>],
       rq_createdAt = 10, rq_userId = ''u1''\<rparr>]"

definition demo_world :: "number world" where
  "demo_world =
     \<lparr>w_db = demo_db, w_queue = demo_queue, w_processing = None, w_clients = Map.empty,
      w_isProcessing = False\<rparr>"


definition demo_batch :: "SyncRequest list" where
  "demo_batch =
     [\<lparr>rq_clientId = ''a'', rq_restaurantId = ''r1'', rq_deliveryAddress = ''1 Main Street'',
       rq_notes = None,
       rq_items = [\<lparr>in_menuItemId = ''m1'', in_quantity = 2, in_notes = None\<rparr>],
       rq_createdAt = 30\<rparr>,
      \<lparr>rq_clientId = ''b'', rq_restaurantId = ''r9'', rq_deliveryAddress = ''2 Main Street'',
       rq_notes = None,
       rq_items = [\<lparr>in_menuItemId = ''m1'', in_quantity = 1, in_notes = None\<rparr>],
       rq_createdAt = 10\<rparr>,
      \<lparr>rq_clientId = ''c'', rq_restaurantId = ''r1'', rq_deliveryAddress = ''3 Main Street'',
       rq_notes = Some ''ring twice'',
       rq_items = [\<lparr>in_menuItemId = ''m1'', in_quantity = 1, in_notes = None\<rparr>],
       rq_createdAt = 20\<rparr>]"

text \<open>The same batch with the client id of the first request on the third as well.\<close>

definition demo_shared_batch :: "SyncRequest list" where
  "demo_shared_batch = demo_batch[2 := (demo_batch ! 2)\<lparr>rq_clientId := ''a''\<rparr>]"


definition demo_items :: "OrderItemInput list" where
  "demo_items = [\<lparr>in_menuItemId = ''m1'', in_quantity = 2, in_notes = None\<rparr>]"

definition demo_nine :: "OrderItemInput list" where
  "demo_nine = [\<lparr>in_menuItemId = ''m1'', in_quantity = 9, in_notes = None\<rparr>]"

section \<open>Order status updates\<close>





section \<open>Order creation with an empty item list\<close>

lemma itemsFromCart_sources:
  "itemsFromCart ar db rid its = Inr ois \<Longrightarrow>
     map oi_menuItemId ois = map ci_menuItemId its \<and> map oi_quantity ois = map ci_quantity its"
  by (induction its arbitrary: ois) (auto split: option.splits if_splits sum.splits)

lemma cartItemsOf_deleteCartItems:
  "findCart userId db = Some cart \<Longrightarrow>
     cartItemsOf userId (deleteCartItems userId (db\<lparr>orders := os\<rparr>)) = Some []"
  by (simp add: cartItemsOf_def deleteCartItems_def findCart_def)

text \<open>
  Claim C10. When \<^verbatim>\<open>items\<close> is present but empty, \<open>createOrder\<close> does what it does when
  \<^verbatim>\<open>items\<close> is omitted: it takes the order's items from the customer's cart, fails with
  BadRequest "Cart is empty" when there is no cart or the cart has no items, and on
  success leaves the cart without items in the store it returns together with the new
  order.
\<close>

theorem createOrder_empty_items:
  "createOrder ar userId (data\<lparr>cd_items := Some []\<rparr>) db
     = createOrder ar userId (data\<lparr>cd_items := None\<rparr>) db
   \<and> (cd_restaurantId data \<in> set (restaurants db) \<and>
        (cartItemsOf userId db = None \<or> cartItemsOf userId db = Some []) \<longrightarrow>
        createOrder ar userId (data\<lparr>cd_items := Some []\<rparr>) db
          = Inl (BadRequestError ''Cart is empty''))
   \<and> (\<forall>ord db'. createOrder ar userId (data\<lparr>cd_items := Some []\<rparr>) db = Inr (ord, db') \<longrightarrow>
        (\<exists>cart its. findCart userId db = Some cart \<and> cartItemsOf userId db = Some its \<and> its \<noteq> []
           \<and> map oi_menuItemId (o_items ord) = map ci_menuItemId its
           \<and> map oi_quantity (o_items ord) = map ci_quantity its
           \<and> orders db' = orders db @ [ord]
           \<and> cartItems db' = filter (\<lambda>ci. ci_cartId ci \<noteq> cart_id cart) (cartItems db)
           \<and> cartItemsOf userId db' = Some []))"
proof (intro conjI allI impI)
  show "createOrder ar userId (data\<lparr>cd_items := Some []\<rparr>) db
     = createOrder ar userId (data\<lparr>cd_items := None\<rparr>) db"
    by (simp add: createOrder_def collectOrderItems_def collectFromCart_def newOrder_def split: option.splits sum.splits)
next
  assume "cd_restaurantId data \<in> set (restaurants db) \<and>
        (cartItemsOf userId db = None \<or> cartItemsOf userId db = Some [])"
  then show "createOrder ar userId (data\<lparr>cd_items := Some []\<rparr>) db
          = Inl (BadRequestError ''Cart is empty'')"
    by (auto simp add: createOrder_def collectOrderItems_def collectFromCart_def)
next
  fix ord db'
  assume ok: "createOrder ar userId (data\<lparr>cd_items := Some []\<rparr>) db = Inr (ord, db')"
  then obtain its ois where its: "cartItemsOf userId db = Some its" "its \<noteq> []"
    and ois: "itemsFromCart ar db (cd_restaurantId data) its = Inr ois"
    and ord: "ord = newOrder ar userId (data\<lparr>cd_items := Some []\<rparr>) ois db"
    and db': "db' = deleteCartItems userId (db\<lparr>orders := orders db @ [ord]\<rparr>)"
    by (auto simp add: createOrder_def collectOrderItems_def collectFromCart_def Let_def
          split: if_splits sum.splits option.splits)
  from its obtain cart where cart: "findCart userId db = Some cart"
    by (auto simp add: cartItemsOf_def split: option.splits)
  have items: "o_items ord = ois" using ord by (simp add: newOrder_def Let_def)
  have c': "findCart userId (db\<lparr>orders := orders db @ [ord]\<rparr>) = Some cart"
    using cart by (simp add: findCart_def)
  show "\<exists>cart its. findCart userId db = Some cart \<and> cartItemsOf userId db = Some its \<and> its \<noteq> []
           \<and> map oi_menuItemId (o_items ord) = map ci_menuItemId its
           \<and> map oi_quantity (o_items ord) = map ci_quantity its
           \<and> orders db' = orders db @ [ord]
           \<and> cartItems db' = filter (\<lambda>ci. ci_cartId ci \<noteq> cart_id cart) (cartItems db)
           \<and> cartItemsOf userId db' = Some []"
    using cart its itemsFromCart_sources[OF ois] items c'
      cartItemsOf_deleteCartItems[OF cart, of "orders db @ [ord]"]
    by (simp add: db' deleteCartItems_def)
qed



theorem createOrder_empty_items_witness:
  "createOrder ieee ''u1'' (demo_data\<lparr>cd_items := Some []\<rparr>) demo_db
     = createOrder ieee ''u1'' (demo_data\<lparr>cd_items := None\<rparr>) demo_db
   \<and> (\<exists>ord db'. createOrder ieee ''u1'' (demo_data\<lparr>cd_items := Some []\<rparr>) demo_db
                   = Inr (ord, db')
         \<and> map oi_menuItemId (o_items ord) = [''m1'']
         \<and> map oi_quantity (o_items ord) = [2]
         \<and> cartItems db' = [])
   \<and> createOrder ieee ''u2'' (demo_data\<lparr>cd_items := Some []\<rparr>) demo_db
       = Inl (BadRequestError ''Cart is empty'')"
proof -
  have r: "cd_restaurantId demo_data \<in> set (restaurants demo_db)"
    by (simp add: demo_data_def demo_db_def)
  have u2: "cartItemsOf ''u2'' demo_db = None"
    by (simp add: cartItemsOf_def findCart_def demo_db_def)
  have u1: "cartItemsOf ''u1'' demo_db
             = Some [\<lparr>ci_id = ''i1'', ci_cartId = ''c1'', ci_menuItemId = ''m1'',
                      ci_quantity = 2, ci_notes = None\<rparr>]"
    by (simp add: cartItemsOf_def findCart_def demo_db_def)
  have c1: "findCart ''u1'' demo_db = Some \<lparr>cart_id = ''c1'', cart_userId = ''u1''\<rparr>"
    by (simp add: findCart_def demo_db_def)
  have ci: "cartItems demo_db = [\<lparr>ci_id = ''i1'', ci_cartId = ''c1'', ci_menuItemId = ''m1'',
                      ci_quantity = 2, ci_notes = None\<rparr>]"
    by (simp add: demo_db_def)
  have "\<exists>ord db'. createOrder ieee ''u1'' (demo_data\<lparr>cd_items := Some []\<rparr>) demo_db
                   = Inr (ord, db')"
    using r u1
    by (simp add: createOrder_def collectOrderItems_def collectFromCart_def Let_def
          findMenuItem_def demo_db_def demo_data_def)
  then obtain ord db' where ok:
    "createOrder ieee ''u1'' (demo_data\<lparr>cd_items := Some []\<rparr>) demo_db = Inr (ord, db')"
    by auto
  from createOrder_empty_items[of ieee "''u1''" demo_data demo_db, THEN conjunct2, THEN conjunct2]
    ok u1 c1 ci
  have props: "map oi_menuItemId (o_items ord) = [''m1''] \<and> map oi_quantity (o_items ord) = [2]
          \<and> cartItems db' = []"
    by auto
  have empty: "createOrder ieee ''u2'' (demo_data\<lparr>cd_items := Some []\<rparr>) demo_db
       = Inl (BadRequestError ''Cart is empty'')"
    using createOrder_empty_items[of ieee "''u2''" demo_data demo_db, THEN conjunct2, THEN conjunct1]
      r u2 by simp
  have same: "createOrder ieee ''u1'' (demo_data\<lparr>cd_items := Some []\<rparr>) demo_db
     = createOrder ieee ''u1'' (demo_data\<lparr>cd_items := None\<rparr>) demo_db"
    by (rule createOrder_empty_items[of ieee "''u1''" demo_data demo_db, THEN conjunct1])
  have "\<exists>ord db'. createOrder ieee ''u1'' (demo_data\<lparr>cd_items := Some []\<rparr>) demo_db
                   = Inr (ord, db')
         \<and> map oi_menuItemId (o_items ord) = [''m1'']
         \<and> map oi_quantity (o_items ord) = [2]
         \<and> cartItems db' = []"
    using ok props by (intro exI[of _ ord] exI[of _ db']) simp
  with same empty show ?thesis by (intro conjI)
qed


section \<open>Driver assignment\<close>

lemma find_append_None: "find P xs = None \<Longrightarrow> find P (xs @ ys) = find P ys"
  by (induction xs) (auto split: if_splits)

lemma find_order_map:
  "find (\<lambda>row. o_id row = k)
     (map (\<lambda>row. if o_id row = k then row\<lparr>o_status := st\<rparr> else row) xs)
   = map_option (\<lambda>row. row\<lparr>o_status := st\<rparr>) (find (\<lambda>row. o_id row = k) xs)"
  by (induction xs) auto

lemma find_driver_map:
  "(\<And>dr. dr_id (f dr) = dr_id dr) \<Longrightarrow>
   find (\<lambda>dr. dr_id dr = k) (map (\<lambda>dr. if dr_id dr = k then f dr else dr) xs)
   = map_option f (find (\<lambda>dr. dr_id dr = k) xs)"
  by (induction xs) auto

lemma assignDriver_success:
  assumes "findOrder orderId db = Some ord"
    and "o_status ord = PREPARING \<or> o_status ord = CONFIRMED"
    and "deliveryOfOrder orderId db = None"
    and "findDriver driverId db = Some driver"
    and "dr_isAvailable driver"
  shows "\<exists>dl db'. assignDriver orderId driverId et db = Inr (dl, db')
           \<and> d_status dl = ASSIGNED \<and> d_orderId dl = orderId \<and> d_driverId dl = driverId
           \<and> d_estimatedTime dl = et
           \<and> deliveries db' = deliveries db @ [dl]
           \<and> deliveryOfOrder orderId db' = Some dl
           \<and> findOrder orderId db'
               = Some (ord\<lparr>o_status := (if o_status ord = PREPARING then ON_THE_WAY else CONFIRMED)\<rparr>)
           \<and> orders db' =
               map (\<lambda>row. if o_id row = orderId \<and> o_status ord = PREPARING
                           then row\<lparr>o_status := ON_THE_WAY\<rparr> else row) (orders db)
           \<and> findDriver driverId db' = Some (driver\<lparr>dr_isAvailable := False\<rparr>)
           \<and> drivers db' =
               map (\<lambda>dr. if dr_id dr = driverId then dr\<lparr>dr_isAvailable := False\<rparr> else dr) (drivers db)
           \<and> restaurants db' = restaurants db \<and> menuItems db' = menuItems db
           \<and> carts db' = carts db \<and> cartItems db' = cartItems db"
  using assms
  by (auto simp add: assignDriver_def Let_def setDriver_def setOrderStatus_def deliveryOfOrder_def
        findOrder_def findDriver_def find_append_None find_order_map find_driver_map)


text \<open>
  Claim C7. \<open>assignDriver\<close> succeeds exactly when the order is in the store with status
  CONFIRMED or PREPARING, no delivery names the order, and the driver is in the store and
  available. On success the store it returns has one more delivery, in state ASSIGNED, for
  this order and driver; the order is \<open>ON_THE_WAY\<close> if it was PREPARING and still CONFIRMED
  if it was CONFIRMED; the driver is unavailable; nothing else has changed. The checks run
  in the order of the source: a missing order is NotFound, then a wrong stage and an order
  that has a delivery are BadRequest, then a missing driver is NotFound and an unavailable
  one BadRequest.
\<close>

theorem assignDriver_contract:
  "(findOrder orderId db = None \<longrightarrow>
      assignDriver orderId driverId et db = Inl (NotFoundError ''Order not found''))
   \<and> (\<forall>ord. findOrder orderId db = Some ord \<longrightarrow>
        (o_status ord \<noteq> PREPARING \<and> o_status ord \<noteq> CONFIRMED \<longrightarrow>
           assignDriver orderId driverId et db
             = Inl (BadRequestError ''Order is not ready for delivery assignment''))
      \<and> (deliveryOfOrder orderId db \<noteq> None \<longrightarrow>
           isBadRequest (assignDriver orderId driverId et db))
      \<and> ((o_status ord = PREPARING \<or> o_status ord = CONFIRMED) \<and> deliveryOfOrder orderId db \<noteq> None \<longrightarrow>
           assignDriver orderId driverId et db
             = Inl (BadRequestError ''Order already has a delivery assigned''))
      \<and> ((o_status ord = PREPARING \<or> o_status ord = CONFIRMED) \<and> deliveryOfOrder orderId db = None \<longrightarrow>
           (findDriver driverId db = None \<longrightarrow>
              assignDriver orderId driverId et db = Inl (NotFoundError ''Driver not found''))
         \<and> (\<forall>driver. findDriver driverId db = Some driver \<longrightarrow>
              (\<not> dr_isAvailable driver \<longrightarrow>
                 assignDriver orderId driverId et db
                   = Inl (BadRequestError ''Driver is not available''))
            \<and> (dr_isAvailable driver \<longrightarrow>
                 (\<exists>dl db'. assignDriver orderId driverId et db = Inr (dl, db')
                    \<and> d_status dl = ASSIGNED \<and> d_orderId dl = orderId \<and> d_driverId dl = driverId
                    \<and> d_estimatedTime dl = et
                    \<and> deliveries db' = deliveries db @ [dl]
                    \<and> deliveryOfOrder orderId db' = Some dl
                    \<and> findOrder orderId db'
                        = Some (ord\<lparr>o_status :=
                                   (if o_status ord = PREPARING then ON_THE_WAY else CONFIRMED)\<rparr>)
                    \<and> orders db' =
                        map (\<lambda>row. if o_id row = orderId \<and> o_status ord = PREPARING
                                    then row\<lparr>o_status := ON_THE_WAY\<rparr> else row) (orders db)
                    \<and> findDriver driverId db' = Some (driver\<lparr>dr_isAvailable := False\<rparr>)
                    \<and> drivers db' =
                        map (\<lambda>dr. if dr_id dr = driverId then dr\<lparr>dr_isAvailable := False\<rparr> else dr)
                          (drivers db)
                    \<and> restaurants db' = restaurants db \<and> menuItems db' = menuItems db
                    \<and> carts db' = carts db \<and> cartItems db' = cartItems db)))))
   \<and> ((\<exists>r. assignDriver orderId driverId et db = Inr r) \<longleftrightarrow>
        (\<exists>ord driver. findOrder orderId db = Some ord
           \<and> (o_status ord = PREPARING \<or> o_status ord = CONFIRMED)
           \<and> deliveryOfOrder orderId db = None
           \<and> findDriver driverId db = Some driver \<and> dr_isAvailable driver))"
proof (intro conjI allI impI)
  assume "findOrder orderId db = None"
  then show "assignDriver orderId driverId et db = Inl (NotFoundError ''Order not found'')"
    by (simp add: assignDriver_def)
next
  fix ord
  assume "findOrder orderId db = Some ord" "o_status ord \<noteq> PREPARING \<and> o_status ord \<noteq> CONFIRMED"
  then show "assignDriver orderId driverId et db
             = Inl (BadRequestError ''Order is not ready for delivery assignment'')"
    by (simp add: assignDriver_def)
next
  fix ord
  assume "findOrder orderId db = Some ord" "deliveryOfOrder orderId db \<noteq> None"
  then show "isBadRequest (assignDriver orderId driverId et db)"
    by (simp add: assignDriver_def)
next
  fix ord
  assume "findOrder orderId db = Some ord"
    "(o_status ord = PREPARING \<or> o_status ord = CONFIRMED) \<and> deliveryOfOrder orderId db \<noteq> None"
  then show "assignDriver orderId driverId et db
             = Inl (BadRequestError ''Order already has a delivery assigned'')"
    by (auto simp add: assignDriver_def)
next
  fix ord
  assume "findOrder orderId db = Some ord"
    "(o_status ord = PREPARING \<or> o_status ord = CONFIRMED) \<and> deliveryOfOrder orderId db = None"
    "findDriver driverId db = None"
  then show "assignDriver orderId driverId et db = Inl (NotFoundError ''Driver not found'')"
    by (auto simp add: assignDriver_def)
next
  fix ord driver
  assume "findOrder orderId db = Some ord"
    "(o_status ord = PREPARING \<or> o_status ord = CONFIRMED) \<and> deliveryOfOrder orderId db = None"
    "findDriver driverId db = Some driver" "\<not> dr_isAvailable driver"
  then show "assignDriver orderId driverId et db = Inl (BadRequestError ''Driver is not available'')"
    by (auto simp add: assignDriver_def)
next
  fix ord driver
  assume "findOrder orderId db = Some ord"
    "(o_status ord = PREPARING \<or> o_status ord = CONFIRMED) \<and> deliveryOfOrder orderId db = None"
    "findDriver driverId db = Some driver" "dr_isAvailable driver"
  then show "\<exists>dl db'. assignDriver orderId driverId et db = Inr (dl, db')
                    \<and> d_status dl = ASSIGNED \<and> d_orderId dl = orderId \<and> d_driverId dl = driverId
                    \<and> d_estimatedTime dl = et
                    \<and> deliveries db' = deliveries db @ [dl]
                    \<and> deliveryOfOrder orderId db' = Some dl
                    \<and> findOrder orderId db'
                        = Some (ord\<lparr>o_status :=
                                   (if o_status ord = PREPARING then ON_THE_WAY else CONFIRMED)\<rparr>)
                    \<and> orders db' =
                        map (\<lambda>row. if o_id row = orderId \<and> o_status ord = PREPARING
                                    then row\<lparr>o_status := ON_THE_WAY\<rparr> else row) (orders db)
                    \<and> findDriver driverId db' = Some (driver\<lparr>dr_isAvailable := False\<rparr>)
                    \<and> drivers db' =
                        map (\<lambda>dr. if dr_id dr = driverId then dr\<lparr>dr_isAvailable := False\<rparr> else dr)
                          (drivers db)
                    \<and> restaurants db' = restaurants db \<and> menuItems db' = menuItems db
                    \<and> carts db' = carts db \<and> cartItems db' = cartItems db"
    using assignDriver_success[of orderId db ord driverId driver et] by simp
next
  show "(\<exists>r. assignDriver orderId driverId et db = Inr r) \<longleftrightarrow>
        (\<exists>ord driver. findOrder orderId db = Some ord
           \<and> (o_status ord = PREPARING \<or> o_status ord = CONFIRMED)
           \<and> deliveryOfOrder orderId db = None
           \<and> findDriver driverId db = Some driver \<and> dr_isAvailable driver)"
    by (auto simp add: assignDriver_def Let_def split: option.splits if_splits)
qed

theorem assignDriver_contract_witness:
  "(\<exists>dl db'. assignDriver ''o2'' ''d1'' (Some 30) demo_db = Inr (dl, db')
      \<and> d_status dl = ASSIGNED \<and> map o_status (orders db') = [PENDING, ON_THE_WAY]
      \<and> map dr_isAvailable (drivers db') = [False, False])
   \<and> assignDriver ''o2'' ''d2'' None demo_db = Inl (BadRequestError ''Driver is not available'')
   \<and> assignDriver ''o2'' ''d9'' None demo_db = Inl (NotFoundError ''Driver not found'')
   \<and> assignDriver ''o1'' ''d1'' None demo_db
       = Inl (BadRequestError ''Order is not ready for delivery assignment'')
   \<and> assignDriver ''o9'' ''d1'' None demo_db = Inl (NotFoundError ''Order not found'')
   \<and> assignDriver ''o2'' ''d1'' None demo_assigned_db
       = Inl (BadRequestError ''Order already has a delivery assigned'')"
proof -
  have o2': "findOrder ''o2'' demo_assigned_db
               = Some (demo_order\<lparr>o_id := ''o2'', o_status := PREPARING\<rparr>)"
    by (simp add: findOrder_def demo_assigned_db_def demo_db_def demo_order_def)
  have dl: "deliveryOfOrder ''o2'' demo_assigned_db \<noteq> None"
    by (simp add: deliveryOfOrder_def demo_assigned_db_def)
  have g: "assignDriver ''o2'' ''d1'' None demo_assigned_db
       = Inl (BadRequestError ''Order already has a delivery assigned'')"
    using assignDriver_contract[of "''o2''" demo_assigned_db "''d1''" None] o2' dl by simp
  have o2: "findOrder ''o2'' demo_db = Some (demo_order\<lparr>o_id := ''o2'', o_status := PREPARING\<rparr>)"
    by (simp add: findOrder_def demo_db_def demo_order_def)
  have o1: "findOrder ''o1'' demo_db = Some demo_order"
    by (simp add: findOrder_def demo_db_def demo_order_def)
  have o9: "findOrder ''o9'' demo_db = None"
    by (simp add: findOrder_def demo_db_def demo_order_def)
  have nd: "deliveryOfOrder ''o2'' demo_db = None"
    by (simp add: deliveryOfOrder_def demo_db_def)
  have d1: "findDriver ''d1'' demo_db
             = Some \<lparr>dr_id = ''d1'', dr_isAvailable = True, dr_totalDeliveries = 0\<rparr>"
    by (simp add: findDriver_def demo_db_def)
  have d2: "findDriver ''d2'' demo_db
             = Some \<lparr>dr_id = ''d2'', dr_isAvailable = False, dr_totalDeliveries = 3\<rparr>"
    by (simp add: findDriver_def demo_db_def)
  have d9: "findDriver ''d9'' demo_db = None"
    by (simp add: findDriver_def demo_db_def)
  have st1: "o_status demo_order = PENDING" and id1: "o_id demo_order = ''o1''"
    by (simp_all add: demo_order_def)
  have os: "orders demo_db = [demo_order, demo_order\<lparr>o_id := ''o2'', o_status := PREPARING\<rparr>]"
    and ds: "drivers demo_db = [\<lparr>dr_id = ''d1'', dr_isAvailable = True, dr_totalDeliveries = 0\<rparr>,
                 \<lparr>dr_id = ''d2'', dr_isAvailable = False, dr_totalDeliveries = 3\<rparr>]"
    by (simp_all add: demo_db_def)
  have a: "\<exists>dl db'. assignDriver ''o2'' ''d1'' (Some 30) demo_db = Inr (dl, db')
      \<and> d_status dl = ASSIGNED \<and> map o_status (orders db') = [PENDING, ON_THE_WAY]
      \<and> map dr_isAvailable (drivers db') = [False, False]"
    using assignDriver_contract[of "''o2''" demo_db "''d1''" "Some 30"] o2 nd d1
    by (auto simp add: os ds st1 id1)
  have b: "assignDriver ''o2'' ''d2'' None demo_db = Inl (BadRequestError ''Driver is not available'')"
    using assignDriver_contract[of "''o2''" demo_db "''d2''" None] o2 nd d2 by simp
  have c: "assignDriver ''o2'' ''d9'' None demo_db = Inl (NotFoundError ''Driver not found'')"
    using assignDriver_contract[of "''o2''" demo_db "''d9''" None] o2 nd d9 by simp
  have d: "assignDriver ''o1'' ''d1'' None demo_db
       = Inl (BadRequestError ''Order is not ready for delivery assignment'')"
    using assignDriver_contract[of "''o1''" demo_db "''d1''" None] o1 st1 by simp
  have e: "assignDriver ''o9'' ''d1'' None demo_db = Inl (NotFoundError ''Order not found'')"
    using assignDriver_contract[of "''o9''" demo_db "''d1''" None] o9 by simp
  from a b c d e g show ?thesis by (intro conjI)
qed


section \<open>Order status and delivery completion\<close>

lemmas eval_defs = updateOrderStatus_def cancelOrder_def assignDriver_def updateDeliveryStatus_def
  updateDriverAvailability_def findOrder_def findDriver_def findDelivery_def deliveryOfOrder_def
  setOrderStatus_def setDriver_def activeDelivery_def fresh_id_def demo_db_def demo_order_def Let_def

text \<open>
  Claim C1 (the code departs from it). The order \<open>o1\<close> is confirmed and a driver is
  assigned, which leaves it CONFIRMED; when the delivery then goes through \<open>PICKED_UP\<close> and
  \<open>IN_TRANSIT\<close> to DELIVERED, \<open>updateDeliveryStatus\<close> writes DELIVERED on the order without
  reading its status: the order goes from CONFIRMED to DELIVERED, which is not an edge of
  the table, and was never \<open>ON_THE_WAY\<close>. When the customer cancels the order after the
  assignment, the same write turns the CANCELLED order into a DELIVERED one.
\<close>

theorem delivery_completion_skips_order_table:
  "orderStatuses 0 ''o1''
     [UpdateOrderStatus ''o1'' CONFIRMED, AssignDriver ''o1'' ''d1'' None,
      UpdateDeliveryStatus ''#'' PICKED_UP, UpdateDeliveryStatus ''#'' IN_TRANSIT,
      UpdateDeliveryStatus ''#'' DELIVERED_delivery] demo_db
     = [Some PENDING, Some CONFIRMED, Some CONFIRMED, Some CONFIRMED, Some CONFIRMED, Some DELIVERED]
   \<and> DELIVERED \<notin> set (STATUS_TRANSITIONS CONFIRMED)
   \<and> orderStatuses 0 ''o1''
     [UpdateOrderStatus ''o1'' CONFIRMED, AssignDriver ''o1'' ''d1'' None,
      CancelOrder ''o1'' ''u1'',
      UpdateDeliveryStatus ''#'' PICKED_UP, UpdateDeliveryStatus ''#'' IN_TRANSIT,
      UpdateDeliveryStatus ''#'' DELIVERED_delivery] demo_db
     = [Some PENDING, Some CONFIRMED, Some CONFIRMED, Some CANCELLED, Some CANCELLED,
        Some CANCELLED, Some DELIVERED]
   \<and> STATUS_TRANSITIONS CANCELLED = []"
  by (simp add: eval_defs)

text \<open>
  Claim C2 (the code departs from it). A driver with an ASSIGNED delivery sets itself
  available again (\<open>updateDriverAvailability\<close> checks for an active delivery only when the
  driver goes offline); \<open>assignDriver\<close> reads the flag alone, so the next assignment to this
  driver succeeds, and the driver has two deliveries in state ASSIGNED.
\<close>

theorem busy_driver_assigned_twice:
  "map (\<lambda>d. (d_orderId d, d_driverId d, d_status d))
     (deliveries (performAll 0
        [UpdateOrderStatus ''o1'' CONFIRMED, AssignDriver ''o1'' ''d1'' None,
         UpdateDriverAvailability ''d1'' True, AssignDriver ''o2'' ''d1'' None] demo_db))
     = [(''o1'', ''d1'', ASSIGNED), (''o2'', ''d1'', ASSIGNED)]
   \<and> activeDelivery ''d1'' (performAll 0
        [UpdateOrderStatus ''o1'' CONFIRMED, AssignDriver ''o1'' ''d1'' None,
         UpdateDriverAvailability ''d1'' True] demo_db) \<noteq> None
   \<and> \<not> isBadRequest (assignDriver ''o2'' ''d1'' None (performAll 0
        [UpdateOrderStatus ''o1'' CONFIRMED, AssignDriver ''o1'' ''d1'' None,
         UpdateDriverAvailability ''d1'' True] demo_db))"
  by (simp add: eval_defs)


section \<open>Cart invariants\<close>

lemma find_None_key:
  "find (\<lambda>ci. ci_cartId ci = c \<and> ci_menuItemId ci = m) xs = None \<Longrightarrow> (c, m) \<notin> set (map lineKey xs)"
  by (induction xs) (auto simp add: lineKey_def split: if_splits)

lemma map_lineKey_update:
  "map lineKey (map (\<lambda>ci. if P ci then ci\<lparr>ci_quantity := q ci, ci_notes := n ci\<rparr> else ci) xs)
     = map lineKey xs"
  by (induction xs) (auto simp add: lineKey_def)

lemma linesOk_append:
  assumes "linesOk xs" and "find (\<lambda>ci. ci_cartId ci = c \<and> ci_menuItemId ci = m) xs = None"
    and "0 < q"
  shows "linesOk (xs @ [\<lparr>ci_id = i, ci_cartId = c, ci_menuItemId = m, ci_quantity = q,
                         ci_notes = n\<rparr>])"
  using assms(1,3) find_None_key[OF assms(2)] by (simp add: linesOk_def lineKey_def)

lemma linesOk_update:
  assumes "linesOk xs" and "\<And>ci. ci \<in> set xs \<Longrightarrow> P ci \<Longrightarrow> 1 \<le> q ci"
  shows "linesOk (map (\<lambda>ci. if P ci then ci\<lparr>ci_quantity := q ci, ci_notes := n ci\<rparr> else ci) xs)"
proof -
  have "distinct (map lineKey (map (\<lambda>ci. if P ci then ci\<lparr>ci_quantity := q ci, ci_notes := n ci\<rparr> else ci) xs))"
    using assms(1) by (simp only: map_lineKey_update linesOk_def)
  moreover have "list_all (\<lambda>ci. 1 \<le> ci_quantity ci)
      (map (\<lambda>ci. if P ci then ci\<lparr>ci_quantity := q ci, ci_notes := n ci\<rparr> else ci) xs)"
    using assms by (auto simp add: linesOk_def list_all_iff)
  ultimately show ?thesis by (simp only: linesOk_def)
qed

lemma linesOk_filter: "linesOk xs \<Longrightarrow> linesOk (filter P xs)"
  by (simp add: linesOk_def distinct_map_filter list_all_iff)

lemma addToCart_invariant:
  assumes "cartInvariant db" and "0 < ac_quantity data" and "addToCart userId data db = Inr db'"
  shows "cartInvariant db'"
proof -
  have upd: "linesOk (map (\<lambda>ci. if ci_id ci = ci_id e
                               then ci\<lparr>ci_quantity := ci_quantity e + ac_quantity data,
                                       ci_notes := notesOr (ac_notes data) (ci_notes e)\<rparr>
                               else ci) (cartItems db))"
    if "find Q (cartItems db) = Some e" for Q e
  proof (rule linesOk_update)
    show "linesOk (cartItems db)" using assms(1) by (simp add: cartInvariant_def)
    from that have "e \<in> set (cartItems db)" by (auto simp add: find_Some_iff)
    then have "1 \<le> ci_quantity e"
      using assms(1) by (simp add: cartInvariant_def linesOk_def list_all_iff)
    then show "1 \<le> ci_quantity e + ac_quantity data" using assms(2) by simp
  qed
  have app: "linesOk (cartItems db @ [\<lparr>ci_id = i, ci_cartId = c, ci_menuItemId = ac_menuItemId data,
                 ci_quantity = ac_quantity data, ci_notes = n\<rparr>])"
    if "find (\<lambda>ci. ci_cartId ci = c \<and> ci_menuItemId ci = ac_menuItemId data) (cartItems db) = None"
    for i c n
    using assms(1,2) that by (simp add: cartInvariant_def linesOk_append)
  show ?thesis
    using assms(3)
    by (auto simp add: addToCart_def Let_def cartInvariant_def upd app
          split: option.splits if_splits)
qed

lemma updateCartItem_invariant:
  assumes "cartInvariant db" and "updateCartItem userId itemId data db = Inr db'"
  shows "cartInvariant db'"
proof -
  have upd: "linesOk (map (\<lambda>ci. if ci_id ci = itemId
                                then ci\<lparr>ci_quantity := (case uc_quantity data of
                                                          None \<Rightarrow> ci_quantity ci | Some q \<Rightarrow> q),
                                        ci_notes := (case uc_notes data of
                                                       None \<Rightarrow> ci_notes ci | Some n \<Rightarrow> Some n)\<rparr>
                                else ci) (cartItems db))"
    if "\<not> (case uc_quantity data of None \<Rightarrow> False | Some q \<Rightarrow> q \<le> 0)"
  proof (rule linesOk_update)
    show "linesOk (cartItems db)" using assms(1) by (simp add: cartInvariant_def)
    fix ci assume "ci \<in> set (cartItems db)"
    then have "1 \<le> ci_quantity ci"
      using assms(1) by (simp add: cartInvariant_def linesOk_def list_all_iff)
    then show "1 \<le> (case uc_quantity data of None \<Rightarrow> ci_quantity ci | Some q \<Rightarrow> q)"
      using that by (auto split: option.splits)
  qed
  show ?thesis
    using assms
    by (auto simp add: updateCartItem_def cartInvariant_def upd linesOk_filter
          split: option.splits if_splits)
qed

lemma removeFromCart_invariant:
  "cartInvariant db \<Longrightarrow> removeFromCart userId itemId db = Inr db' \<Longrightarrow> cartInvariant db'"
  by (auto simp add: removeFromCart_def cartInvariant_def linesOk_filter split: option.splits)

lemma clearCart_invariant:
  "cartInvariant db \<Longrightarrow> clearCart userId db = Inr db' \<Longrightarrow> cartInvariant db'"
  by (auto simp add: clearCart_def deleteCartItems_def cartInvariant_def linesOk_filter
        split: option.splits)

lemma unique_update:
  "uniqueKeys xs \<Longrightarrow>
   uniqueKeys (map (\<lambda>ci. if P ci then ci\<lparr>ci_quantity := q ci, ci_notes := n ci\<rparr> else ci) xs)"
  by (simp only: map_lineKey_update uniqueKeys_def)

lemma unique_append:
  "uniqueKeys xs \<Longrightarrow>
   find (\<lambda>ci. ci_cartId ci = c \<and> ci_menuItemId ci = m) xs = None \<Longrightarrow>
   uniqueKeys (xs @ [\<lparr>ci_id = i, ci_cartId = c, ci_menuItemId = m, ci_quantity = q,
                       ci_notes = n\<rparr>])"
  using find_None_key[of c m xs] by (simp add: lineKey_def uniqueKeys_def)

lemma unique_filter: "uniqueKeys xs \<Longrightarrow> uniqueKeys (filter P xs)"
  by (simp add: uniqueKeys_def distinct_map_filter)

lemma addToCart_unique:
  "uniqueLines db \<Longrightarrow> addToCart userId data db = Inr db' \<Longrightarrow> uniqueLines db'"
  by (auto simp add: addToCart_def Let_def uniqueLines_def unique_update unique_append
        split: option.splits if_splits)

lemma updateCartItem_unique:
  "uniqueLines db \<Longrightarrow> updateCartItem userId itemId data db = Inr db' \<Longrightarrow> uniqueLines db'"
  by (auto simp add: updateCartItem_def uniqueLines_def unique_update unique_filter
        split: option.splits if_splits)

lemma removeFromCart_unique:
  "uniqueLines db \<Longrightarrow> removeFromCart userId itemId db = Inr db' \<Longrightarrow> uniqueLines db'"
  by (auto simp add: removeFromCart_def uniqueLines_def unique_filter split: option.splits)

lemma clearCart_unique:
  "uniqueLines db \<Longrightarrow> clearCart userId db = Inr db' \<Longrightarrow> uniqueLines db'"
  by (auto simp add: clearCart_def deleteCartItems_def uniqueLines_def unique_filter
        split: option.splits)

lemma performCart_unique: "uniqueLines db \<Longrightarrow> uniqueLines (performCart x db)"
  by (cases x)
     (auto split: sum.splits
        dest: addToCart_unique updateCartItem_unique removeFromCart_unique clearCart_unique)

lemma performCartAll_unique: "uniqueLines db \<Longrightarrow> uniqueLines (performCartAll xs db)"
  by (induction xs arbitrary: db) (auto simp add: performCart_unique)

lemma performCart_invariant:
  "cartInvariant db \<Longrightarrow> validatedAdd x \<Longrightarrow> cartInvariant (performCart x db)"
  by (cases x)
     (auto split: sum.splits
        dest: addToCart_invariant updateCartItem_invariant removeFromCart_invariant
          clearCart_invariant)

lemma performCartAll_invariant:
  "cartInvariant db \<Longrightarrow> list_all validatedAdd xs \<Longrightarrow> cartInvariant (performCartAll xs db)"
  by (induction xs arbitrary: db) (auto simp add: performCart_invariant)


text \<open>
  Claim C8, as amended. Over every sequence of cart operations (calls that throw change
  nothing) the store keeps at most one cart item per pair of cart and menu item. Every
  cart item keeps a quantity of at least 1 when each \<open>addToCart\<close> of the sequence carries a
  positive quantity, which is what \<^verbatim>\<open>addToCartSchema\<close> lets through on the route; the
  quantities of \<open>updateCartItem\<close> are arbitrary. A store without cart items satisfies both.
  \<open>updateCartItem\<close> with a quantity of 0 or less on a line of the user's cart deletes the
  line.
\<close>

theorem cart_invariant_preserved:
  "(cartInvariant db \<and> list_all validatedAdd xs \<longrightarrow> cartInvariant (performCartAll xs db))
   \<and> (uniqueLines db \<longrightarrow> uniqueLines (performCartAll ys db))
   \<and> (cartItems db = [] \<longrightarrow> cartInvariant db)
   \<and> (uniqueLines db \<longleftrightarrow>
        distinct (map (\<lambda>ci. (ci_cartId ci, ci_menuItemId ci)) (cartItems db)))
   \<and> (cartInvariant db \<longleftrightarrow>
        uniqueLines db \<and> list_all (\<lambda>ci. 1 \<le> ci_quantity ci) (cartItems db))
   \<and> (\<forall>cart line q.
        findCart userId db = Some cart
        \<and> find (\<lambda>ci. ci_id ci = itemId \<and> ci_cartId ci = cart_id cart) (cartItems db) = Some line
        \<and> q \<le> 0 \<longrightarrow>
        updateCartItem userId itemId \<lparr>uc_quantity = Some q, uc_notes = n\<rparr> db
          = Inr (db\<lparr>cartItems := filter (\<lambda>ci. ci_id ci \<noteq> itemId) (cartItems db)\<rparr>)
        \<and> line \<notin> set (filter (\<lambda>ci. ci_id ci \<noteq> itemId) (cartItems db)))"
proof (intro conjI allI impI)
  assume "cartInvariant db \<and> list_all validatedAdd xs"
  then show "cartInvariant (performCartAll xs db)" by (simp add: performCartAll_invariant)
next
  assume "uniqueLines db"
  then show "uniqueLines (performCartAll ys db)" by (rule performCartAll_unique)
next
  assume "cartItems db = []"
  then show "cartInvariant db" by (simp add: cartInvariant_def linesOk_def)
next
  have "lineKey = (\<lambda>ci. (ci_cartId ci, ci_menuItemId ci))" by (rule ext) (simp add: lineKey_def)
  then show "uniqueLines db \<longleftrightarrow>
        distinct (map (\<lambda>ci. (ci_cartId ci, ci_menuItemId ci)) (cartItems db))"
    by (simp add: uniqueLines_def uniqueKeys_def)
next
  show "cartInvariant db \<longleftrightarrow>
        uniqueLines db \<and> list_all (\<lambda>ci. 1 \<le> ci_quantity ci) (cartItems db)"
    by (simp add: cartInvariant_def linesOk_def uniqueLines_def uniqueKeys_def)
next
  fix cart line and q :: int
  assume a: "findCart userId db = Some cart
        \<and> find (\<lambda>ci. ci_id ci = itemId \<and> ci_cartId ci = cart_id cart) (cartItems db) = Some line
        \<and> q \<le> 0"
  then show "updateCartItem userId itemId \<lparr>uc_quantity = Some q, uc_notes = n\<rparr> db
          = Inr (db\<lparr>cartItems := filter (\<lambda>ci. ci_id ci \<noteq> itemId) (cartItems db)\<rparr>)"
    by (simp add: updateCartItem_def)
  from a have "ci_id line = itemId" by (auto simp add: find_Some_iff)
  then show "line \<notin> set (filter (\<lambda>ci. ci_id ci \<noteq> itemId) (cartItems db))" by simp
qed

lemmas cart_eval_defs = addToCart_def updateCartItem_def removeFromCart_def clearCart_def
  deleteCartItems_def findCart_def findMenuItem_def fresh_id_def demo_db_def Let_def

theorem cart_invariant_preserved_witness:
  "cartInvariant demo_db \<and> list_all validatedAdd demo_cart_ops
   \<and> cartInvariant (performCartAll demo_cart_ops demo_db)
   \<and> updateCartItem ''u1'' ''i1'' \<lparr>uc_quantity = Some 0, uc_notes = None\<rparr> demo_db
        = Inr (demo_db\<lparr>cartItems := []\<rparr>)
   \<and> uniqueLines demo_db
   \<and> uniqueLines (performCartAll
        (AddToCart ''u2'' \<lparr>ac_menuItemId = ''m1'', ac_quantity = - 3, ac_notes = None\<rparr>
           # demo_cart_ops) demo_db)
   \<and> cartInvariant (demo_db\<lparr>cartItems := []\<rparr>)"
proof -
  have u: "uniqueLines demo_db"
    by (simp add: uniqueLines_def uniqueKeys_def lineKey_def demo_db_def)
  have u': "uniqueLines (performCartAll
        (AddToCart ''u2'' \<lparr>ac_menuItemId = ''m1'', ac_quantity = - 3, ac_notes = None\<rparr>
           # demo_cart_ops) demo_db)"
    using cart_invariant_preserved[THEN conjunct2, THEN conjunct1, rule_format, OF u] .
  have e: "cartInvariant (demo_db\<lparr>cartItems := []\<rparr>)"
    using cart_invariant_preserved[THEN conjunct2, THEN conjunct2, THEN conjunct1,
        of "demo_db\<lparr>cartItems := []\<rparr>"] by simp
  have inv: "cartInvariant demo_db"
    by (simp add: cartInvariant_def linesOk_def lineKey_def demo_db_def)
  have ops: "list_all validatedAdd demo_cart_ops"
    by (simp add: demo_cart_ops_def)
  have c: "findCart ''u1'' demo_db = Some \<lparr>cart_id = ''c1'', cart_userId = ''u1''\<rparr>"
    by (simp add: findCart_def demo_db_def)
  have l: "find (\<lambda>ci. ci_id ci = ''i1'' \<and> ci_cartId ci = cart_id \<lparr>cart_id = ''c1'', cart_userId = ''u1''\<rparr>)
             (cartItems demo_db)
           = Some \<lparr>ci_id = ''i1'', ci_cartId = ''c1'', ci_menuItemId = ''m1'',
                    ci_quantity = 2, ci_notes = None\<rparr>"
    by (simp add: demo_db_def)
  have f: "filter (\<lambda>ci. ci_id ci \<noteq> ''i1'') (cartItems demo_db) = []"
    by (simp add: demo_db_def)
  have run: "cartInvariant (performCartAll demo_cart_ops demo_db)"
    using cart_invariant_preserved[THEN conjunct1, of demo_db demo_cart_ops] inv ops by simp
  have del: "updateCartItem ''u1'' ''i1'' \<lparr>uc_quantity = Some 0, uc_notes = None\<rparr> demo_db
        = Inr (demo_db\<lparr>cartItems := []\<rparr>)"
    using cart_invariant_preserved[THEN conjunct2, THEN conjunct2, THEN conjunct2, THEN conjunct2,
        THEN conjunct2, of "''u1''" demo_db "''i1''" None] c l
    by (simp add: f)
  from inv ops run del u u' e show ?thesis by (intro conjI)
qed

text \<open>
  Claim C8 as stated fails on the service: \<open>addToCart\<close> does not look at the quantity, and
  with quantity 0 for a user without a cart it stores a cart item of quantity 0.
\<close>

theorem addToCart_nonpositive_counterexample:
  "cartInvariant demo_db
   \<and> map ci_quantity (cartItems (performCartAll
        [AddToCart ''u2'' \<lparr>ac_menuItemId = ''m1'', ac_quantity = 0, ac_notes = None\<rparr>] demo_db))
       = [2, 0]
   \<and> \<not> cartInvariant (performCartAll
        [AddToCart ''u2'' \<lparr>ac_menuItemId = ''m1'', ac_quantity = 0, ac_notes = None\<rparr>] demo_db)"
  by (simp add: cartInvariant_def linesOk_def lineKey_def cart_eval_defs)


section \<open>The background queue drains in order\<close>

lemma fifoReplay_clientIds: "map qr_clientId (fst (fifoReplay ar items db)) = map rq_clientId items"
  by (induction items arbitrary: db)
     (auto simp add: successResult_def failureResult_def split: sum.splits)

lemma processItem_marker: "w_processing (snd (processItem ar item v)) = None"
  by (simp add: processItem_def Let_def split: sum.split prod.split)

lemma processItem_step:
  "processItem ar item v =
     (case createOrder ar (rq_userId item) (orderData item) (w_db v) of
        Inr (createdOrder, db') \<Rightarrow>
          (successResult (rq_clientId item) (o_id createdOrder) (o_orderNumber createdOrder),
           v\<lparr>w_db := db', w_processing := None\<rparr>)
      | Inl e \<Rightarrow> (failureResult (rq_clientId item) e, v\<lparr>w_processing := None\<rparr>))"
  by (simp add: processItem_def Let_def split: sum.split prod.split)

lemma drainLoop_replay:
  "drainLoop ar results w =
     (results @ fst (fifoReplay ar (w_queue w) (w_db w)),
      w\<lparr>w_db := snd (fifoReplay ar (w_queue w) (w_db w)), w_queue := [],
        w_processing := (if w_queue w = [] then w_processing w else None)\<rparr>)"
proof (induction ar results w rule: drainLoop.induct)
  case (1 ar results w)
  show ?case
  proof (cases "w_queue w")
    case Nil
    have "w\<lparr>w_db := w_db w, w_queue := [], w_processing := w_processing w\<rparr> = w"
      using Nil by (cases w) simp
    with Nil show ?thesis by (subst drainLoop.simps) simp
  next
    case (Cons item rest)
    have step: "drainLoop ar results w =
        drainLoop ar (results @ [fst (processItem ar item (w\<lparr>w_queue := rest\<rparr>))])
            (snd (processItem ar item (w\<lparr>w_queue := rest\<rparr>)))"
      by (subst drainLoop.simps) (simp add: Cons)
    show ?thesis
      unfolding step "1.IH"[OF Cons]
      by (simp add: Cons processItem_step split: sum.split prod.split)
  qed
qed


text \<open>
  Claim C9. A call of \<open>processQueue\<close> that finds no drain in progress returns the results
  of replaying the queue head first, with one call of \<open>createOrder\<close> per item and a failure
  recorded in that item's result: one result per queued item, in queue order. The store
  is the one the replay leaves, the queue is empty, the in-flight marker is cleared (it is
  cleared at the end of every turn of the loop, whether \<open>createOrder\<close> returned or threw),
  and the guard flag is reset. A call that finds the flag set returns at once and changes
  nothing; without concurrency the flag is never set between calls.
\<close>

theorem processQueue_fifo:
  "(\<not> w_isProcessing w \<longrightarrow>
      processQueue ar w =
        (fst (fifoReplay ar (w_queue w) (w_db w)),
         w\<lparr>w_db := snd (fifoReplay ar (w_queue w) (w_db w)), w_queue := [],
           w_processing := (if w_queue w = [] then w_processing w else None),
           w_isProcessing := False\<rparr>)
      \<and> map qr_clientId (fst (processQueue ar w)) = map rq_clientId (w_queue w)
      \<and> w_queue (snd (processQueue ar w)) = []
      \<and> \<not> w_isProcessing (snd (processQueue ar w)))
   \<and> (\<forall>item v. w_processing (snd (processItem ar item v)) = None)
   \<and> (w_isProcessing w \<longrightarrow> processQueue ar w = ([], w))"
proof (intro conjI allI impI)
  assume idle: "\<not> w_isProcessing w"
  then show eq: "processQueue ar w =
        (fst (fifoReplay ar (w_queue w) (w_db w)),
         w\<lparr>w_db := snd (fifoReplay ar (w_queue w) (w_db w)), w_queue := [],
           w_processing := (if w_queue w = [] then w_processing w else None),
           w_isProcessing := False\<rparr>)"
    by (simp add: processQueue_def drainLoop_replay)
  show "map qr_clientId (fst (processQueue ar w)) = map rq_clientId (w_queue w)"
    by (simp add: eq fifoReplay_clientIds)
  show "w_queue (snd (processQueue ar w)) = []" by (simp add: eq)
  show "\<not> w_isProcessing (snd (processQueue ar w))" by (simp add: eq)
next
  fix item v
  show "w_processing (snd (processItem ar item v)) = None" by (rule processItem_marker)
next
  assume "w_isProcessing w"
  then show "processQueue ar w = ([], w)" by (simp add: processQueue_def)
qed

lemmas create_eval_defs = createOrder_def collectOrderItems_def collectFromCart_def
  cartItemsOf_def newOrder_def orderData_def findMenuItem_def findCart_def deleteCartItems_def
  fresh_id_def generateOrderNumber_def successResult_def failureResult_def
  demo_db_def demo_order_def Let_def

theorem processQueue_fifo_witness:
  "\<not> w_isProcessing demo_world
   \<and> map qr_clientId (fst (processQueue ieee demo_world)) = [''a'', ''b'']
   \<and> map qr_success (fst (processQueue ieee demo_world)) = [True, False]
   \<and> w_queue (snd (processQueue ieee demo_world)) = []
   \<and> w_processing (snd (processQueue ieee demo_world)) = None
   \<and> length (orders (w_db (snd (processQueue ieee demo_world)))) = 3
   \<and> processQueue ieee (demo_world\<lparr>w_isProcessing := True\<rparr>)
       = ([], demo_world\<lparr>w_isProcessing := True\<rparr>)"
proof -
  have busy: "processQueue ieee (demo_world\<lparr>w_isProcessing := True\<rparr>)
       = ([], demo_world\<lparr>w_isProcessing := True\<rparr>)"
    using processQueue_fifo[THEN conjunct2, THEN conjunct2,
        of "demo_world\<lparr>w_isProcessing := True\<rparr>" ieee] by simp
  have idle: "\<not> w_isProcessing demo_world" by (simp add: demo_world_def)
  have q: "w_queue demo_world = demo_queue" and d: "w_db demo_world = demo_db"
    by (simp_all add: demo_world_def)
  have r: "map qr_success (fst (fifoReplay ieee demo_queue demo_db)) = [True, False]
           \<and> length (orders (snd (fifoReplay ieee demo_queue demo_db))) = 3"
    by (simp add: demo_queue_def create_eval_defs)
  have ne: "demo_queue \<noteq> []" by (simp add: demo_queue_def)
  have ids: "map rq_clientId demo_queue = [''a'', ''b'']" by (simp add: demo_queue_def)
  note run = processQueue_fifo[THEN conjunct1, rule_format, of demo_world ieee, OF idle]
  have eq: "processQueue ieee demo_world =
        (fst (fifoReplay ieee demo_queue demo_db),
         demo_world\<lparr>w_db := snd (fifoReplay ieee demo_queue demo_db), w_queue := [],
           w_processing := None, w_isProcessing := False\<rparr>)"
    using run[THEN conjunct1] by (simp add: q d ne)
  have cl: "map qr_clientId (fst (processQueue ieee demo_world)) = map rq_clientId demo_queue"
    using run[THEN conjunct2, THEN conjunct1] by (simp only: q)
  have rest: "map qr_success (fst (processQueue ieee demo_world)) = [True, False]
      \<and> w_queue (snd (processQueue ieee demo_world)) = []
      \<and> w_processing (snd (processQueue ieee demo_world)) = None
      \<and> length (orders (w_db (snd (processQueue ieee demo_world)))) = 3"
    using r by (simp add: eq)
  from idle cl rest busy show ?thesis by (simp only: ids simp_thms)
qed


section \<open>Offline synchronisation: order of replay and failures\<close>

lemma syncLoop_syncRun:
  "syncLoop now ar userId xs results w =
     (results @ fst (syncRun now ar userId xs w), snd (syncRun now ar userId xs w))"
proof (induction xs arbitrary: results w)
  case Nil
  show ?case by simp
next
  case (Cons x xs)
  show ?case
    by (simp add: Cons.IH syncItem_def split: option.split sum.split prod.split)
qed

lemma syncOrders_syncRun:
  "syncOrders now ar userId batch w = syncRun now ar userId (sort_key rq_createdAt batch) w"
  by (simp add: syncOrders_def syncLoop_syncRun)

lemma syncItem_clientId: "qr_clientId (fst (syncItem now ar userId x w)) = rq_clientId x"
  by (simp add: syncItem_def successResult_def failureResult_def
        split: option.split sum.split prod.split)

lemma syncRun_clientIds:
  "map qr_clientId (fst (syncRun now ar userId xs w)) = map rq_clientId xs"
  by (induction xs arbitrary: w) (simp_all add: syncItem_clientId)

lemma existingKey_inject: "existingKey userId a = existingKey userId b \<longleftrightarrow> a = b"
  by (simp add: existingKey_def)

text \<open>What a successful creation changes.\<close>

lemma collect_explicit:
  "rq_items x \<noteq> [] \<Longrightarrow>
     collectOrderItems ar userId (orderData x) db
       = itemsFromRequest ar db (rq_restaurantId x) (rq_items x)"
  by (simp add: collectOrderItems_def orderData_def)

lemma itemsFromRequest_cong:
  "menuItems db' = menuItems db \<Longrightarrow>
     itemsFromRequest ar db' rid its = itemsFromRequest ar db rid its"
  by (induction its) (simp_all add: findMenuItem_def split: option.split)

lemma createOrder_accepted:
  "createOrder ar userId data db = Inr (ord, db') \<longleftrightarrow>
     cd_restaurantId data \<in> set (restaurants db)
     \<and> (\<exists>ois. collectOrderItems ar userId data db = Inr ois
          \<and> ord = newOrder ar userId data ois db
          \<and> db' = (if (case cd_items data of None \<Rightarrow> True | Some its \<Rightarrow> length its = 0)
                    then deleteCartItems userId (db\<lparr>orders := orders db @ [ord]\<rparr>)
                    else db\<lparr>orders := orders db @ [ord]\<rparr>))"
  by (cases "collectOrderItems ar userId data db") (auto simp add: createOrder_def Let_def)


lemma deleteCartItems_frame:
  "restaurants (deleteCartItems userId db) = restaurants db
   \<and> menuItems (deleteCartItems userId db) = menuItems db
   \<and> carts (deleteCartItems userId db) = carts db
   \<and> orders (deleteCartItems userId db) = orders db"
  by (simp add: deleteCartItems_def split: option.split)

lemma createOrder_frame:
  assumes "createOrder ar userId data db = Inr (ord, db')"
  shows "restaurants db' = restaurants db \<and> menuItems db' = menuItems db \<and> carts db' = carts db
         \<and> orders db' = orders db @ [ord]"
  using assms by (auto simp add: createOrder_accepted deleteCartItems_frame)

lemma accepts_iff:
  "accepts ar userId x db \<longleftrightarrow>
     rq_restaurantId x \<in> set (restaurants db)
     \<and> (\<exists>ois. collectOrderItems ar userId (orderData x) db = Inr ois)"
  by (cases "collectOrderItems ar userId (orderData x) db")
     (auto simp add: accepts_def createOrder_def Let_def orderData_def)

lemma accepts_explicit_cong:
  assumes "rq_items x \<noteq> []" and "restaurants db' = restaurants db" and "menuItems db' = menuItems db"
  shows "accepts ar userId x db' = accepts ar userId x db"
  using assms itemsFromRequest_cong[of db' db ar "rq_restaurantId x" "rq_items x"]
  by (simp add: accepts_iff collect_explicit)


lemma syncItem_miss:
  assumes "redis_get now (w_clients w) (existingKey userId (rq_clientId x)) = None"
  shows "qr_success (fst (syncItem now ar userId x w)) = accepts ar userId x (w_db w)"
    and "\<not> accepts ar userId x (w_db w) \<Longrightarrow> snd (syncItem now ar userId x w) = w"
    and "accepts ar userId x (w_db w) \<Longrightarrow>
           \<exists>ord db'. createOrder ar userId (orderData x) (w_db w) = Inr (ord, db')
             \<and> snd (syncItem now ar userId x w) =
                 w\<lparr>w_db := db',
                   w_clients := redis_setex now (w_clients w)
                     (existingKey userId (rq_clientId x)) 86400
                     \<lparr>cm_orderId = o_id ord, cm_orderNumber = o_orderNumber ord\<rparr>\<rparr>"
  using assms
  by (auto simp add: syncItem_def accepts_def successResult_def failureResult_def
        split: sum.splits)

lemma redis_get_setex_other:
  "k' \<noteq> k \<Longrightarrow> redis_get now (redis_setex t entries k ttl v) k' = redis_get now entries k'"
  by (simp add: redis_get_def redis_setex_def)

lemma syncRun_fresh:
  assumes "distinct (map rq_clientId xs)"
    and "\<forall>x\<in>set xs. redis_get now (w_clients w) (existingKey userId (rq_clientId x)) = None"
    and "\<forall>x\<in>set xs. rq_items x \<noteq> []"
  shows "map qr_success (fst (syncRun now ar userId xs w))
           = map (\<lambda>x. accepts ar userId x (w_db w)) xs
         \<and> length (orders (w_db (snd (syncRun now ar userId xs w))))
           = length (orders (w_db w)) + length (filter (\<lambda>x. accepts ar userId x (w_db w)) xs)"
  using assms
proof (induction xs arbitrary: w)
  case Nil
  show ?case by simp
next
  case (Cons x xs)
  have miss: "redis_get now (w_clients w) (existingKey userId (rq_clientId x)) = None"
    using Cons.prems(2) by simp
  show ?case
  proof (cases "accepts ar userId x (w_db w)")
    case False
    have same: "snd (syncItem now ar userId x w) = w"
      using syncItem_miss(2)[OF miss False] .
    have ih: "map qr_success (fst (syncRun now ar userId xs w))
           = map (\<lambda>x. accepts ar userId x (w_db w)) xs
         \<and> length (orders (w_db (snd (syncRun now ar userId xs w))))
           = length (orders (w_db w)) + length (filter (\<lambda>x. accepts ar userId x (w_db w)) xs)"
      using Cons.IH[of w] Cons.prems by simp
    show ?thesis
      using ih False by (simp add: same syncItem_miss(1)[OF miss])
  next
    case True
    from syncItem_miss(3)[OF miss True] obtain ord db' where
      ok: "createOrder ar userId (orderData x) (w_db w) = Inr (ord, db')"
      and w': "snd (syncItem now ar userId x w) =
                 w\<lparr>w_db := db',
                   w_clients := redis_setex now (w_clients w)
                     (existingKey userId (rq_clientId x)) 86400
                     \<lparr>cm_orderId = o_id ord, cm_orderNumber = o_orderNumber ord\<rparr>\<rparr>"
      by blast
    let ?w' = "snd (syncItem now ar userId x w)"
    note fr = createOrder_frame[OF ok]
    have db: "w_db ?w' = db'" by (simp add: w')
    have keys: "\<forall>y\<in>set xs. redis_get now (w_clients ?w') (existingKey userId (rq_clientId y)) = None"
    proof
      fix y assume y: "y \<in> set xs"
      then have "rq_clientId y \<in> rq_clientId ` set xs" by (rule imageI)
      moreover have "rq_clientId x \<notin> rq_clientId ` set xs" using Cons.prems(1) by simp
      ultimately have "rq_clientId y \<noteq> rq_clientId x" by metis
      then have "existingKey userId (rq_clientId y) \<noteq> existingKey userId (rq_clientId x)"
        by (simp add: existingKey_inject)
      then show "redis_get now (w_clients ?w') (existingKey userId (rq_clientId y)) = None"
        using Cons.prems(2) y by (simp add: w' redis_get_setex_other)
    qed
    have acc: "accepts ar userId y db' = accepts ar userId y (w_db w)" if "y \<in> set xs" for y
      using that Cons.prems(3) fr accepts_explicit_cong[of y db' "w_db w" ar userId] by simp
    have ih: "map qr_success (fst (syncRun now ar userId xs ?w'))
           = map (\<lambda>x. accepts ar userId x db') xs
         \<and> length (orders (w_db (snd (syncRun now ar userId xs ?w'))))
           = length (orders db') + length (filter (\<lambda>x. accepts ar userId x db') xs)"
      using Cons.IH[of ?w'] Cons.prems keys by (simp add: db)
    have m: "map (\<lambda>x. accepts ar userId x db') xs = map (\<lambda>x. accepts ar userId x (w_db w)) xs"
      using acc by simp
    have f: "filter (\<lambda>x. accepts ar userId x db') xs = filter (\<lambda>x. accepts ar userId x (w_db w)) xs"
      using acc by (simp cong: filter_cong)
    show ?thesis
      using ih True fr by (simp add: m f syncItem_miss(1)[OF miss])
  qed
qed


lemma itemsFromRequest_items:
  "itemsFromRequest ar db rid its = Inr ois \<Longrightarrow>
     map oi_menuItemId ois = map in_menuItemId its \<and> map oi_quantity ois = map in_quantity its"
  by (induction its arbitrary: ois) (auto split: option.splits if_splits sum.splits)

lemma createOrder_createdFor:
  assumes ok: "createOrder ar userId (orderData x) db = Inr (ord, db')" and items: "rq_items x \<noteq> []"
  shows "createdFor userId x ord"
proof -
  from ok obtain ois where c: "collectOrderItems ar userId (orderData x) db = Inr ois"
    and o: "ord = newOrder ar userId (orderData x) ois db"
    by (auto simp add: createOrder_accepted)
  from c items have "itemsFromRequest ar db (rq_restaurantId x) (rq_items x) = Inr ois"
    by (simp add: collect_explicit)
  from itemsFromRequest_items[OF this] show ?thesis
    by (simp add: createdFor_def o newOrder_def Let_def orderData_def)
qed

text \<open>
  The orders a run adds to the table, in the order of their creation: one for each
  accepted request, in the order of the list that is replayed, with the identifier the
  request's result reports.
\<close>

lemma syncRun_fresh_orders:
  assumes "distinct (map rq_clientId xs)"
    and "\<forall>x\<in>set xs. redis_get now (w_clients w) (existingKey userId (rq_clientId x)) = None"
    and "\<forall>x\<in>set xs. rq_items x \<noteq> []"
  shows "\<exists>new. orders (w_db (snd (syncRun now ar userId xs w))) = orders (w_db w) @ new
           \<and> list_all2 (createdFor userId) (filter (\<lambda>x. accepts ar userId x (w_db w)) xs) new
           \<and> map qr_orderId (filter qr_success (fst (syncRun now ar userId xs w)))
               = map (\<lambda>ord. Some (o_id ord)) new"
  using assms
proof (induction xs arbitrary: w)
  case Nil
  show ?case by simp
next
  case (Cons x xs)
  have miss: "redis_get now (w_clients w) (existingKey userId (rq_clientId x)) = None"
    using Cons.prems(2) by simp
  show ?case
  proof (cases "accepts ar userId x (w_db w)")
    case False
    have same: "snd (syncItem now ar userId x w) = w"
      using syncItem_miss(2)[OF miss False] .
    have fail: "\<not> qr_success (fst (syncItem now ar userId x w))"
      using False by (simp add: syncItem_miss(1)[OF miss])
    from Cons.IH[of w] Cons.prems obtain new where
      "orders (w_db (snd (syncRun now ar userId xs w))) = orders (w_db w) @ new
       \<and> list_all2 (createdFor userId) (filter (\<lambda>x. accepts ar userId x (w_db w)) xs) new
       \<and> map qr_orderId (filter qr_success (fst (syncRun now ar userId xs w)))
           = map (\<lambda>ord. Some (o_id ord)) new"
      by auto
    then show ?thesis using False fail by (intro exI[of _ new]) (simp add: same)
  next
    case True
    from syncItem_miss(3)[OF miss True] obtain ord db' where
      ok: "createOrder ar userId (orderData x) (w_db w) = Inr (ord, db')"
      and w': "snd (syncItem now ar userId x w) =
                 w\<lparr>w_db := db',
                   w_clients := redis_setex now (w_clients w)
                     (existingKey userId (rq_clientId x)) 86400
                     \<lparr>cm_orderId = o_id ord, cm_orderNumber = o_orderNumber ord\<rparr>\<rparr>"
      by blast
    let ?w' = "snd (syncItem now ar userId x w)"
    note fr = createOrder_frame[OF ok]
    have db: "w_db ?w' = db'" by (simp add: w')
    have res: "qr_success (fst (syncItem now ar userId x w))
               \<and> qr_orderId (fst (syncItem now ar userId x w)) = Some (o_id ord)"
      using miss ok by (simp add: syncItem_def successResult_def)
    have for_x: "createdFor userId x ord"
      using ok Cons.prems(3) by (intro createOrder_createdFor) simp_all
    have keys: "\<forall>y\<in>set xs. redis_get now (w_clients ?w') (existingKey userId (rq_clientId y)) = None"
    proof
      fix y assume y: "y \<in> set xs"
      then have "rq_clientId y \<in> rq_clientId ` set xs" by (rule imageI)
      moreover have "rq_clientId x \<notin> rq_clientId ` set xs" using Cons.prems(1) by simp
      ultimately have "rq_clientId y \<noteq> rq_clientId x" by metis
      then have "existingKey userId (rq_clientId y) \<noteq> existingKey userId (rq_clientId x)"
        by (simp add: existingKey_inject)
      then show "redis_get now (w_clients ?w') (existingKey userId (rq_clientId y)) = None"
        using Cons.prems(2) y by (simp add: w' redis_get_setex_other)
    qed
    have acc: "accepts ar userId y db' = accepts ar userId y (w_db w)" if "y \<in> set xs" for y
      using that Cons.prems(3) fr accepts_explicit_cong[of y db' "w_db w" ar userId] by simp
    have f: "filter (\<lambda>x. accepts ar userId x db') xs = filter (\<lambda>x. accepts ar userId x (w_db w)) xs"
      using acc by (simp cong: filter_cong)
    from Cons.IH[of ?w'] Cons.prems keys obtain new where
      new: "orders (w_db (snd (syncRun now ar userId xs ?w'))) = orders db' @ new"
        "list_all2 (createdFor userId) (filter (\<lambda>x. accepts ar userId x db') xs) new"
        "map qr_orderId (filter qr_success (fst (syncRun now ar userId xs ?w')))
           = map (\<lambda>ord. Some (o_id ord)) new"
      by (auto simp add: db)
    show ?thesis
      using new True fr res for_x by (intro exI[of _ "ord # new"]) (simp add: f)
  qed
qed

lemma distinct_map_sort_key:
  "distinct (map f (sort_key k xs)) = distinct (map f xs)"
proof -
  have "mset (map f (sort_key k xs)) = mset (map f xs)" by simp
  then show ?thesis by (rule mset_eq_imp_distinct_iff)
qed

lemma count_true: "length (filter (\<lambda>b. b) (map P xs)) = length (filter P xs)"
  by (induction xs) simp_all

text \<open>
  Claim C6, as amended. \<open>syncOrders\<close> is the replay of the batch in ascending order of the
  requests' \<^verbatim>\<open>createdAt\<close>, whatever their position in the batch (requests with equal times
  keep their order): its results and the store it leaves are those of handling the sorted
  requests one at a time, each in the store the previous one left. It returns one result
  per request, in that order; a request that fails gets a result of its own and the loop
  goes on. For a batch of distinct client ids, none with a live dedup entry, each request
  with explicit items, a request succeeds exactly when \<open>createOrder\<close> accepts it in the store
  before the call, and the call appends one order per accepted request to the table, in
  ascending order of \<^verbatim>\<open>createdAt\<close>, under the identifier the request's result reports: with
  three requests of which two are accepted, three results, two successes, one failure, two
  more orders.
\<close>

theorem syncOrders_replay_order:
  "syncOrders now ar userId batch w = syncRun now ar userId (sort_key rq_createdAt batch) w
   \<and> map qr_clientId (fst (syncOrders now ar userId batch w))
       = map rq_clientId (sort_key rq_createdAt batch)
   \<and> sorted (map rq_createdAt (sort_key rq_createdAt batch))
   \<and> mset (sort_key rq_createdAt batch) = mset batch
   \<and> (\<forall>t. filter (\<lambda>x. rq_createdAt x = t) (sort_key rq_createdAt batch)
            = filter (\<lambda>x. rq_createdAt x = t) batch)
   \<and> length (fst (syncOrders now ar userId batch w)) = length batch
   \<and> (distinct (map rq_clientId batch)
        \<and> (\<forall>x\<in>set batch.
              redis_get now (w_clients w) (existingKey userId (rq_clientId x)) = None)
        \<and> (\<forall>x\<in>set batch. rq_items x \<noteq> []) \<longrightarrow>
        map qr_success (fst (syncOrders now ar userId batch w))
          = map (\<lambda>x. accepts ar userId x (w_db w)) (sort_key rq_createdAt batch)
        \<and> (\<exists>new. orders (w_db (snd (syncOrders now ar userId batch w))) = orders (w_db w) @ new
              \<and> list_all2 (createdFor userId)
                   (filter (\<lambda>x. accepts ar userId x (w_db w)) (sort_key rq_createdAt batch)) new
              \<and> map qr_orderId (filter qr_success (fst (syncOrders now ar userId batch w)))
                  = map (\<lambda>ord. Some (o_id ord)) new)
        \<and> length (orders (w_db (snd (syncOrders now ar userId batch w))))
          = length (orders (w_db w)) + length (filter (\<lambda>x. accepts ar userId x (w_db w)) batch)
        \<and> (length batch = 3 \<and> length (filter (\<lambda>x. accepts ar userId x (w_db w)) batch) = 2 \<longrightarrow>
             length (fst (syncOrders now ar userId batch w)) = 3
             \<and> length (filter qr_success (fst (syncOrders now ar userId batch w))) = 2
             \<and> length (filter (\<lambda>r. \<not> qr_success r) (fst (syncOrders now ar userId batch w))) = 1
             \<and> length (orders (w_db (snd (syncOrders now ar userId batch w))))
                 = length (orders (w_db w)) + 2))"
proof (intro conjI allI impI)
  let ?sorted = "sort_key rq_createdAt batch"
  let ?rs = "fst (syncOrders now ar userId batch w)"
  show "syncOrders now ar userId batch w = syncRun now ar userId ?sorted w"
    by (rule syncOrders_syncRun)
  show ids: "map qr_clientId ?rs = map rq_clientId ?sorted"
    by (simp add: syncOrders_syncRun syncRun_clientIds)
  show "sorted (map rq_createdAt ?sorted)" by (rule sorted_sort_key)
  show "mset ?sorted = mset batch" by simp
  show "filter (\<lambda>x. rq_createdAt x = t) ?sorted = filter (\<lambda>x. rq_createdAt x = t) batch" for t
    by (rule sort_key_stable)
  have "length (map qr_clientId ?rs) = length (map rq_clientId ?sorted)" by (simp only: ids)
  then show len: "length ?rs = length batch" by simp
  assume fresh: "distinct (map rq_clientId batch)
        \<and> (\<forall>x\<in>set batch.
              redis_get now (w_clients w) (existingKey userId (rq_clientId x)) = None)
        \<and> (\<forall>x\<in>set batch. rq_items x \<noteq> [])"
  have run: "map qr_success (fst (syncRun now ar userId ?sorted w))
           = map (\<lambda>x. accepts ar userId x (w_db w)) ?sorted
         \<and> length (orders (w_db (snd (syncRun now ar userId ?sorted w))))
           = length (orders (w_db w)) + length (filter (\<lambda>x. accepts ar userId x (w_db w)) ?sorted)"
    using fresh by (intro syncRun_fresh) (simp_all add: distinct_map_sort_key)
  have "\<exists>new. orders (w_db (snd (syncRun now ar userId ?sorted w))) = orders (w_db w) @ new
           \<and> list_all2 (createdFor userId) (filter (\<lambda>x. accepts ar userId x (w_db w)) ?sorted) new
           \<and> map qr_orderId (filter qr_success (fst (syncRun now ar userId ?sorted w)))
               = map (\<lambda>ord. Some (o_id ord)) new"
    using fresh by (intro syncRun_fresh_orders) (simp_all add: distinct_map_sort_key)
  then show "\<exists>new. orders (w_db (snd (syncOrders now ar userId batch w))) = orders (w_db w) @ new
              \<and> list_all2 (createdFor userId)
                   (filter (\<lambda>x. accepts ar userId x (w_db w)) ?sorted) new
              \<and> map qr_orderId (filter qr_success ?rs) = map (\<lambda>ord. Some (o_id ord)) new"
    by (simp only: syncOrders_syncRun)
  have cnt: "length (filter (\<lambda>x. accepts ar userId x (w_db w)) ?sorted)
               = length (filter (\<lambda>x. accepts ar userId x (w_db w)) batch)"
    by (simp add: filter_sort)
  show succ: "map qr_success ?rs = map (\<lambda>x. accepts ar userId x (w_db w)) ?sorted"
    using run by (simp add: syncOrders_syncRun)
  show ords: "length (orders (w_db (snd (syncOrders now ar userId batch w))))
          = length (orders (w_db w)) + length (filter (\<lambda>x. accepts ar userId x (w_db w)) batch)"
    using run cnt by (simp add: syncOrders_syncRun)
  have nsucc: "length (filter qr_success ?rs)
                 = length (filter (\<lambda>x. accepts ar userId x (w_db w)) batch)"
  proof -
    have "length (filter qr_success ?rs) = length (filter (\<lambda>b. b) (map qr_success ?rs))"
      by (simp only: count_true)
    also have "\<dots> = length (filter (\<lambda>x. accepts ar userId x (w_db w)) ?sorted)"
      by (simp only: succ count_true)
    finally show ?thesis by (simp only: cnt)
  qed
  assume three: "length batch = 3 \<and> length (filter (\<lambda>x. accepts ar userId x (w_db w)) batch) = 2"
  show "length ?rs = 3" using len three by simp
  show two: "length (filter qr_success ?rs) = 2" using nsucc three by simp
  show "length (filter (\<lambda>r. \<not> qr_success r) ?rs) = 1"
    using sum_length_filter_compl[of qr_success ?rs] two len three by simp
  show "length (orders (w_db (snd (syncOrders now ar userId batch w)))) = length (orders (w_db w)) + 2"
    using ords three by simp
qed

theorem syncOrders_replay_order_witness:
  "map rq_clientId demo_batch = [''a'', ''b'', ''c'']
   \<and> map qr_clientId (fst (syncOrders 100 ieee ''u1'' demo_batch demo_world)) = [''b'', ''c'', ''a'']
   \<and> map qr_success (fst (syncOrders 100 ieee ''u1'' demo_batch demo_world))
       = [False, True, True]
   \<and> length (filter qr_success (fst (syncOrders 100 ieee ''u1'' demo_batch demo_world))) = 2
   \<and> length (filter (\<lambda>r. \<not> qr_success r)
        (fst (syncOrders 100 ieee ''u1'' demo_batch demo_world))) = 1
   \<and> length (orders (w_db (snd (syncOrders 100 ieee ''u1'' demo_batch demo_world)))) = 4
   \<and> map o_deliveryAddress (orders (w_db (snd (syncOrders 100 ieee ''u1'' demo_batch demo_world))))
       = map o_deliveryAddress (orders demo_db) @ [''3 Main Street'', ''1 Main Street'']
   \<and> map qr_orderId (filter qr_success (fst (syncOrders 100 ieee ''u1'' demo_batch demo_world)))
       = map (\<lambda>ord. Some (o_id ord))
           (drop 2 (orders (w_db (snd (syncOrders 100 ieee ''u1'' demo_batch demo_world)))))"
proof -
  let ?run = "syncOrders 100 ieee ''u1'' demo_batch demo_world"
  have sorted: "sort_key rq_createdAt demo_batch = [demo_batch ! 1, demo_batch ! 2, demo_batch ! 0]"
    by (simp add: demo_batch_def)
  have ids: "map rq_clientId demo_batch = [''a'', ''b'', ''c'']" by (simp add: demo_batch_def)
  have acc: "map (\<lambda>x. accepts ieee ''u1'' x demo_db) demo_batch = [True, False, True]"
    by (simp add: demo_batch_def accepts_def itemsFromRequest.simps create_eval_defs)
  have hyp: "distinct (map rq_clientId demo_batch)
        \<and> (\<forall>x\<in>set demo_batch.
              redis_get 100 (w_clients demo_world) (existingKey ''u1'' (rq_clientId x)) = None)
        \<and> (\<forall>x\<in>set demo_batch. rq_items x \<noteq> [])"
    by (simp add: demo_batch_def demo_world_def redis_get_def)
  have db: "w_db demo_world = demo_db" by (simp add: demo_world_def)
  have n: "length demo_batch = 3
           \<and> length (filter (\<lambda>x. accepts ieee ''u1'' x (w_db demo_world)) demo_batch) = 2"
    using acc by (simp add: db demo_batch_def)
  have os: "length (orders demo_db) = 2" by (simp add: demo_db_def)
  note inst = syncOrders_replay_order[of 100 ieee "''u1''" demo_batch demo_world]
  have a: "map qr_clientId (fst ?run) = [''b'', ''c'', ''a'']"
    using inst[THEN conjunct2, THEN conjunct1] by (simp add: sorted demo_batch_def)
  note rest = inst[THEN conjunct2, THEN conjunct2, THEN conjunct2, THEN conjunct2, THEN conjunct2,
      THEN conjunct2, rule_format, OF hyp]
  have b: "map qr_success (fst ?run) = [False, True, True]"
    using rest[THEN conjunct1] acc by (simp add: sorted db demo_batch_def)
  have accepted: "filter (\<lambda>x. accepts ieee ''u1'' x demo_db)
                    (sort_key rq_createdAt demo_batch) = [demo_batch ! 2, demo_batch ! 0]"
    using acc by (simp add: sorted demo_batch_def)
  from rest[THEN conjunct2, THEN conjunct1, unfolded db accepted] obtain new where
    new: "orders (w_db (snd ?run)) = orders demo_db @ new"
      "list_all2 (createdFor ''u1'') [demo_batch ! 2, demo_batch ! 0] new"
      "map qr_orderId (filter qr_success (fst ?run)) = map (\<lambda>ord. Some (o_id ord)) new"
    by blast
  from new(2) obtain oc oa where two: "new = [oc, oa]"
    and oc: "createdFor ''u1'' (demo_batch ! 2) oc" and oa: "createdFor ''u1'' (demo_batch ! 0) oa"
    by (auto simp add: list_all2_Cons1)
  have "o_deliveryAddress oc = ''3 Main Street'' \<and> o_deliveryAddress oa = ''1 Main Street''"
    using oc oa by (simp add: createdFor_def demo_batch_def)
  then have c: "map o_deliveryAddress (orders (w_db (snd ?run)))
             = map o_deliveryAddress (orders demo_db) @ [''3 Main Street'', ''1 Main Street'']"
    by (simp add: new(1) two)
  have d: "map qr_orderId (filter qr_success (fst ?run))
             = map (\<lambda>ord. Some (o_id ord)) (drop 2 (orders (w_db (snd ?run))))"
    using new(3) by (simp add: new(1) os)
  note sc = rest[THEN conjunct2, THEN conjunct2, THEN conjunct2, rule_format, OF n]
  from ids a b sc c d show ?thesis by (simp add: db os)
qed

text \<open>
  Claim C6 as stated fails for a batch in which two requests carry the same client id:
  each of the two is accepted by \<open>createOrder\<close> in the store before the call and the third
  is not, the call returns three results, two of them successes, but the second request is
  answered from the dedup entry of the first and one order is persisted, not two.
\<close>

theorem syncOrders_shared_clientId_counterexample:
  "map rq_clientId demo_shared_batch = [''a'', ''b'', ''a'']
   \<and> accepts ieee ''u1'' (demo_shared_batch ! 0) (w_db demo_world)
   \<and> \<not> accepts ieee ''u1'' (demo_shared_batch ! 1) (w_db demo_world)
   \<and> accepts ieee ''u1'' (demo_shared_batch ! 2) (w_db demo_world)
   \<and> map qr_success (fst (syncOrders 100 ieee ''u1'' demo_shared_batch demo_world))
       = [False, True, True]
   \<and> length (orders (w_db (snd (syncOrders 100 ieee ''u1'' demo_shared_batch demo_world))))
       = length (orders (w_db demo_world)) + 1"
  by (simp add: demo_shared_batch_def demo_batch_def demo_world_def demo_db_def accepts_def
        syncOrders_def redis_get_def redis_setex_def existingKey_def create_eval_defs)


section \<open>Offline synchronisation: resubmitting a batch\<close>









































section \<open>Rounding to doubles\<close>

lemma digitCount_step: "1 < b \<Longrightarrow> 0 < n \<Longrightarrow> digitCount b n = digitCount b (n div b) + 1"
  by (subst digitCount.simps) simp

lemma digitCount_stop: "n \<le> 0 \<Longrightarrow> digitCount b n = 0"
  by (subst digitCount.simps) simp

lemma digitCount_bounds:
  "1 < b \<Longrightarrow> 0 < n \<Longrightarrow>
     0 < digitCount b n \<and> b ^ nat (digitCount b n - 1) \<le> n \<and> n < b ^ nat (digitCount b n)"
proof (induction b n rule: digitCount.induct)
  case (1 b n)
  have b: "1 < b" and n: "0 < n" using 1 by simp_all
  have dc: "digitCount b n = digitCount b (n div b) + 1"
    using b n by (rule digitCount_step)
  show ?case
  proof (cases "n div b = 0")
    case True
    then have small: "n < b" using b n by (simp add: zdiv_eq_0_iff)
    have "digitCount b n = 1" using True by (simp add: dc digitCount_stop)
    then show ?thesis using small n by simp
  next
    case False
    have "0 \<le> n div b" using b n by (simp add: pos_imp_zdiv_nonneg_iff)
    with False have pos: "0 < n div b" by simp
    let ?c = "digitCount b (n div b)"
    from 1(1)[OF conjI[OF b n] b pos]
    have c: "0 < ?c" and lo: "b ^ nat (?c - 1) \<le> n div b" and hi: "n div b < b ^ nat ?c"
      by simp_all
    have suc: "nat ?c = Suc (nat (?c - 1))" using c by simp
    have "b ^ nat ?c = b * b ^ nat (?c - 1)" by (subst suc) simp
    also have "\<dots> \<le> b * (n div b)" using lo b by simp
    also have "\<dots> \<le> n"
      using b mult_div_mod_eq[of b n] pos_mod_sign[of b n] by linarith
    finally have lower: "b ^ nat ?c \<le> n" .
    have "n div b + 1 \<le> b ^ nat ?c" using hi by simp
    then have "b * (n div b + 1) \<le> b * b ^ nat ?c" using b by simp
    moreover have "n < b * (n div b + 1)"
    proof -
      have "b * (n div b + 1) = b * (n div b) + b" by (simp add: algebra_simps)
      then show ?thesis
        using b mult_div_mod_eq[of b n] pos_mod_bound[of b n] by linarith
    qed
    ultimately have "n < b * b ^ nat ?c" by simp
    moreover have "nat (?c + 1) = Suc (nat ?c)" using c by simp
    ultimately have upper: "n < b ^ nat (?c + 1)" by simp
    show ?thesis using c lower upper by (simp add: dc)
  qed
qed


lemma magnitude_bounds:
  assumes "0 < x"
  shows "2 powi magnitude 2 x \<le> x \<and> x < 2 powi (magnitude 2 x + 1)"
proof (cases "1 \<le> x")
  case True
  let ?n = "\<lfloor>x\<rfloor>"
  let ?c = "digitCount 2 ?n"
  have n: "0 < ?n" using True by simp
  from digitCount_bounds[of 2 ?n] n
  have c: "0 < ?c" and lo: "2 ^ nat (?c - 1) \<le> ?n" and hi: "?n < 2 ^ nat ?c" by simp_all
  have m: "magnitude 2 x = ?c - 1" using True by (simp add: magnitude_def)
  have "(2::rat) powi (?c - 1) = of_int (2 ^ nat (?c - 1))"
    using c by (simp add: power_int_nonneg_exp)
  also have "\<dots> \<le> of_int ?n" using lo by (simp only: of_int_le_iff)
  also have "\<dots> \<le> x" by simp
  finally have lower: "2 powi (?c - 1) \<le> x" .
  have n1: "?n + 1 \<le> 2 ^ nat ?c" using hi by simp
  have "x < of_int (?n + 1)" using floor_correct[of x] by simp
  also have "\<dots> \<le> of_int (2 ^ nat ?c)" using n1 by (simp only: of_int_le_iff)
  also have "(of_int (2 ^ nat ?c) :: rat) = 2 powi ?c"
    using c by (simp add: power_int_nonneg_exp)
  finally have upper: "x < 2 powi ?c" .
  show ?thesis using lower upper by (simp add: m)
next
  case False
  let ?y = "1 / x"
  let ?m = "\<lceil>?y\<rceil> - 1"
  let ?c = "digitCount 2 ?m"
  have y: "1 < ?y" using False assms by simp
  then have "1 < \<lceil>?y\<rceil>" by (simp add: less_ceiling_iff)
  then have mpos: "0 < ?m" by simp
  from digitCount_bounds[of 2 ?m] mpos
  have c: "0 < ?c" and lo: "2 ^ nat (?c - 1) \<le> ?m" and hi: "?m < 2 ^ nat ?c" by simp_all
  have m: "magnitude 2 x = - ?c" using False by (simp add: magnitude_def)
  have cl: "\<lceil>?y\<rceil> \<le> 2 ^ nat ?c" using hi by simp
  have "?y \<le> of_int \<lceil>?y\<rceil>" by (rule le_of_int_ceiling)
  also have "\<dots> \<le> of_int (2 ^ nat ?c)" using cl by (simp only: of_int_le_iff)
  also have "(of_int (2 ^ nat ?c) :: rat) = 2 ^ nat ?c" by simp
  finally have yle: "?y \<le> 2 ^ nat ?c" .
  have p: "(0::rat) < 2 ^ nat ?c" by simp
  have "1 / 2 ^ nat ?c \<le> x"
    using yle assms p by (simp add: field_simps)
  moreover have "(2::rat) powi (- ?c) = 1 / 2 ^ nat ?c"
    using c by (simp add: power_int_minus_divide power_int_nonneg_exp)
  ultimately have lower: "2 powi (- ?c) \<le> x" by simp
  have "(2::rat) ^ nat (?c - 1) = of_int (2 ^ nat (?c - 1))" by simp
  also have "\<dots> \<le> of_int ?m" using lo by (simp only: of_int_le_iff)
  also have "\<dots> < ?y" using ceiling_correct[of ?y] by simp
  finally have ylt: "2 ^ nat (?c - 1) < ?y" .
  have "x < 1 / 2 ^ nat (?c - 1)"
    using ylt assms by (simp add: field_simps)
  moreover have "(2::rat) powi (- ?c + 1) = 1 / 2 ^ nat (?c - 1)"
  proof -
    have "- ?c + 1 = - (?c - 1)" by simp
    then show ?thesis using c by (simp only: power_int_minus_divide) (simp add: power_int_nonneg_exp)
  qed
  ultimately have upper: "x < 2 powi (- ?c + 1)" by simp
  show ?thesis using lower upper by (simp add: m)
qed

lemma roundHalfEven_of_int: "roundHalfEven (of_int k) = k"
  by (simp add: roundHalfEven_def nearestEven_def)

lemma roundHalfEven_le: "x \<le> of_int m \<Longrightarrow> roundHalfEven x \<le> m"
proof -
  assume le: "x \<le> of_int m"
  have fl: "\<lfloor>x\<rfloor> \<le> m" using le by (simp add: floor_le_iff)
  show ?thesis
  proof (cases "x = of_int \<lfloor>x\<rfloor>")
    case True
    then have "roundHalfEven x = \<lfloor>x\<rfloor>"
      by (simp add: roundHalfEven_def nearestEven_def)
    then show ?thesis using fl by simp
  next
    case False
    then have "of_int \<lfloor>x\<rfloor> < x" by (metis of_int_floor_le less_le)
    then have "of_int \<lfloor>x\<rfloor> < (of_int m :: rat)" using le by simp
    then have "\<lfloor>x\<rfloor> < m" by (simp only: of_int_less_iff)
    then show ?thesis by (simp add: roundHalfEven_def nearestEven_def)
  qed
qed

lemma roundHalfEven_nonneg: "0 \<le> x \<Longrightarrow> 0 \<le> roundHalfEven x"
  by (simp add: roundHalfEven_def nearestEven_def)


lemma pow2_less_cancel: "(2::rat) powi m < 2 powi k \<Longrightarrow> m < k"
proof (rule ccontr)
  assume lt: "(2::rat) powi m < 2 powi k" and "\<not> m < k"
  then have "k \<le> m" by simp
  then have "(2::rat) powi k \<le> 2 powi m" by (intro power_int_increasing) simp_all
  with lt show False by simp
qed

lemma pow2_le_cancel: "(2::rat) powi m \<le> 2 powi k \<Longrightarrow> m \<le> k"
proof (rule ccontr)
  assume le: "(2::rat) powi m \<le> 2 powi k" and "\<not> m \<le> k"
  then have "k < m" by simp
  then have "(2::rat) powi k < 2 powi m" by (intro power_int_strict_increasing) simp_all
  with le show False by simp
qed

lemma pow2_split: "(2::rat) powi (a + b) = 2 powi a * 2 powi b"
  by (rule power_int_add) simp

lemma roundPositive_idem:
  assumes x: "0 < x" and r: "roundPositive x = Finite d"
  shows "0 \<le> d \<and> nearestDouble d = Finite d"
proof -
  define e where "e = max (magnitude 2 x - 52) (- 1074)"
  define n where "n = roundHalfEven (x / 2 powi e)"
  have u: "spacing x = 2 powi e" by (simp add: spacing_def e_def)
  have d: "d = of_int n * 2 powi e" and range: "d < 2 ^ 1024"
    using r by (auto simp add: roundPositive_def inRange_def roundTo_def u n_def split: if_splits)
  have upos: "(0::rat) < 2 powi e" by simp
  have n0: "0 \<le> n" unfolding n_def using x by (intro roundHalfEven_nonneg) simp
  have e_low: "- 1074 \<le> e" and e_mag: "magnitude 2 x - 52 \<le> e" by (simp_all add: e_def)
  have nle: "n \<le> 2 ^ 53"
  proof -
    from magnitude_bounds[OF x] have "x < 2 powi (magnitude 2 x + 1)" by simp
    also have "magnitude 2 x + 1 = (magnitude 2 x - 52) + 53" by simp
    also have "(2::rat) powi ((magnitude 2 x - 52) + 53) = 2 powi (magnitude 2 x - 52) * 2 powi 53"
      by (rule pow2_split)
    also have "\<dots> \<le> 2 powi e * 2 powi 53"
      using e_mag by (intro mult_right_mono power_int_increasing) simp_all
    finally have "x < 2 powi e * 2 powi 53" .
    then have "x / 2 powi e < 2 powi 53" using upos by (simp add: field_simps)
    then have "x / 2 powi e \<le> of_int (2 ^ 53)" by simp
    then show ?thesis unfolding n_def by (rule roundHalfEven_le)
  qed
  show ?thesis
  proof (cases "n = 0")
    case True
    then show ?thesis by (simp add: d nearestDouble_def)
  next
    case False
    then have npos: "0 < n" using n0 by simp
    have dpos: "0 < d" using npos upos by (simp add: d)
    define e' where "e' = max (magnitude 2 d - 52) (- 1074)"
    note mb = magnitude_bounds[OF dpos]
    have "\<exists>k. d = of_int k * 2 powi e'"
    proof (cases "n = 2 ^ 53")
      case True
      have dd: "d = 2 powi (53 + e)" unfolding pow2_split using True by (simp add: d)
      have "(2::rat) powi magnitude 2 d \<le> 2 powi (53 + e)" using mb dd by simp
      then have a: "magnitude 2 d \<le> 53 + e" by (rule pow2_le_cancel)
      have "(2::rat) powi (53 + e) < 2 powi (magnitude 2 d + 1)" using mb dd by simp
      then have b: "53 + e < magnitude 2 d + 1" by (rule pow2_less_cancel)
      have "e' = 1 + e" using a b e_low by (simp add: e'_def)
      moreover have "53 + e = 52 + (1 + e)" by simp
      ultimately have "d = 2 powi 52 * 2 powi e'" using dd by (simp only: pow2_split)
      then have "d = of_int (2 ^ 52) * 2 powi e'" by simp
      then show ?thesis by blast
    next
      case False
      then have "n < 2 ^ 53" using nle by simp
      then have "(of_int n :: rat) < of_int (2 ^ 53)" by (simp only: of_int_less_iff)
      then have "(of_int n :: rat) < 2 powi 53" by simp
      then have "d < 2 powi 53 * 2 powi e" using upos by (simp add: d)
      then have "d < 2 powi (53 + e)" by (simp only: pow2_split)
      with mb have "(2::rat) powi magnitude 2 d < 2 powi (53 + e)" by simp
      then have "magnitude 2 d < 53 + e" by (rule pow2_less_cancel)
      then have le: "e' \<le> e" using e_low by (simp add: e'_def)
      have "e = (e - e') + e'" by simp
      then have "(2::rat) powi e = 2 powi (e - e') * 2 powi e'" by (metis pow2_split)
      also have "(2::rat) powi (e - e') = of_int (2 ^ nat (e - e'))"
        using le by (simp add: power_int_nonneg_exp)
      finally have "d = of_int (n * 2 ^ nat (e - e')) * 2 powi e'" by (simp add: d)
      then show ?thesis by blast
    qed
    then obtain k where k: "d = of_int k * 2 powi e'" ..
    have "roundTo (2 powi e') d = d" by (simp add: k roundTo_def roundHalfEven_of_int)
    then have "roundTo (spacing d) d = d" by (simp add: spacing_def e'_def)
    then have "nearestDouble d = Finite d"
      using dpos range by (simp add: nearestDouble_def roundPositive_def inRange_def)
    then show ?thesis using dpos by simp
  qed
qed


lemma negate_eq_Finite: "negate v = Finite d \<longleftrightarrow> v = Finite (- d)"
  by (cases v) auto

lemma nearestDouble_sign:
  assumes "nearestDouble c = Finite x" and "0 < x"
  shows "0 < c"
proof (rule ccontr)
  assume "\<not> 0 < c"
  then consider "c = 0" | "c < 0" by fastforce
  then show False
  proof cases
    case 1
    then show False using assms by (simp add: nearestDouble_def)
  next
    case 2
    then have "roundPositive (- c) = Finite (- x)"
      using assms(1) by (simp add: nearestDouble_def negate_eq_Finite)
    from roundPositive_idem[OF _ this] 2 assms(2) show False by simp
  qed
qed

lemma nearestDouble_minus: "nearestDouble (- x) = negate (nearestDouble x)"
proof -
  have "negate (negate v) = v" for v by (cases v) simp_all
  then show ?thesis by (simp add: nearestDouble_def)
qed

lemma nearestDouble_idem:
  assumes "nearestDouble x = Finite d"
  shows "nearestDouble d = Finite d"
proof -
  consider "x = 0" | "0 < x" | "x < 0" by fastforce
  then show ?thesis
  proof cases
    case 1
    then show ?thesis using assms by (auto simp add: nearestDouble_def)
  next
    case 2
    then have "roundPositive x = Finite d" using assms by (simp add: nearestDouble_def)
    from roundPositive_idem[OF 2 this] show ?thesis by simp
  next
    case 3
    then have "roundPositive (- x) = Finite (- d)"
      using assms by (simp add: nearestDouble_def negate_eq_Finite)
    from roundPositive_idem[OF _ this] 3 have "nearestDouble (- d) = Finite (- d)" by simp
    then show ?thesis by (simp add: nearestDouble_minus negate_eq_Finite)
  qed
qed

lemma candidate_reads:
  "candidate g x = Some c \<Longrightarrow> nearestDouble c = Finite x"
  by (cases "nearestDouble (below g x) = Finite x"; cases "nearestDouble (below g x + g) = Finite x")
     (auto simp add: candidate_def nearer_def split: if_splits)

lemma shortest_reads:
  "nearestDouble x = Finite x \<Longrightarrow> nearestDouble (shortest ks n x) = Finite x"
  by (induction ks) (auto simp add: candidate_reads split: option.split)

lemma shortestDecimal_reads:
  assumes "nearestDouble d = Finite d"
  shows "nearestDouble (shortestDecimal d) = Finite d"
proof -
  consider "d = 0" | "0 < d" | "d < 0" by fastforce
  then show ?thesis
  proof cases
    case 1
    then show ?thesis by (simp add: shortestDecimal_def nearestDouble_def)
  next
    case 2
    then show ?thesis using assms by (simp add: shortestDecimal_def shortest_reads)
  next
    case 3
    from assms have "nearestDouble (- d) = Finite (- d)" by (simp add: nearestDouble_minus)
    then have "nearestDouble (shortest [1..<18] (magnitude 10 (- d) + 1) (- d)) = Finite (- d)"
      by (rule shortest_reads)
    then show ?thesis using 3 by (simp add: shortestDecimal_def nearestDouble_minus)
  qed
qed

text \<open>
  A number is a double when \<open>toNumber\<close> leaves it as it is. The results of the arithmetic
  are doubles, and the Decimal of a double reads back as that double.
\<close>

lemma toNumber_toNumber: "toNumber (toNumber v) = toNumber v"
proof (cases v)
  case (Finite x)
  show ?thesis
  proof (cases "nearestDouble x")
    case (Finite d)
    with nearestDouble_idem[OF this] \<open>v = Finite x\<close> show ?thesis by simp
  next
    case NotFinite
    with \<open>v = Finite x\<close> show ?thesis by simp
  qed
next
  case NotFinite
  then show ?thesis by simp
qed

lemma toNumber_nearestDouble: "toNumber (nearestDouble x) = nearestDouble x"
  using toNumber_toNumber[of "Finite x"] by simp

lemma toNumber_num_add: "toNumber (num_add a b) = num_add a b"
  by (cases a; cases b) (simp_all add: toNumber_nearestDouble)

lemma toNumber_num_mul: "toNumber (num_mul a b) = num_mul a b"
  by (cases a; cases b) (simp_all add: toNumber_nearestDouble)

lemma toNumber_toDecimal: "toNumber v = v \<Longrightarrow> toNumber (toDecimal v) = v"
  by (cases v) (simp_all add: shortestDecimal_reads)


text \<open>Evaluation of the rounding on numerals.\<close>

lemma floor_rat_numeral: "\<lfloor>numeral a / numeral b :: rat\<rfloor> = numeral a div numeral b"
  by (metis floor_divide_of_int_eq of_int_numeral)

lemma ceiling_rat_numeral: "\<lceil>numeral a / numeral b :: rat\<rceil> = - (- numeral a div numeral b)"
  by (metis ceiling_def floor_divide_of_int_eq of_int_numeral of_int_minus minus_divide_left)

lemma floor_rat_one_numeral: "\<lfloor>1 / numeral b :: rat\<rfloor> = 1 div numeral b"
  by (metis floor_divide_of_int_eq of_int_numeral of_int_1)

lemma ceiling_rat_one_numeral: "\<lceil>1 / numeral b :: rat\<rceil> = - (- 1 div numeral b)"
  by (metis ceiling_def floor_divide_of_int_eq of_int_numeral of_int_1 of_int_minus minus_divide_left)

lemma digits17: "[Suc 0..<18] = [1, 2, 3, 4, 5, 6, 7, 8, 9, 10, 11, 12, 13, 14, 15, 16, 17]"
  by (simp add: upt_conv_Cons)

lemmas double_eval = nearestDouble_def roundPositive_def spacing_def magnitude_def roundTo_def
  roundHalfEven_def nearestEven_def inRange_def digitCount_step digitCount_stop
  floor_rat_numeral ceiling_rat_numeral floor_rat_one_numeral ceiling_rat_one_numeral

lemmas decimal_eval = shortestDecimal_def candidate_def below_def nearer_def digits17 double_eval

lemma nearestDouble_0: "nearestDouble 0 = Finite 0"
  by (simp add: nearestDouble_def)

lemma doubleSum_snoc: "doubleSum (ps @ [p]) = num_add (doubleSum ps) (toNumber p)"
  by (simp add: doubleSum_def)

lemma toNumber_doubleSum: "toNumber (doubleSum ps) = doubleSum ps"
proof (cases ps rule: rev_cases)
  case Nil
  then show ?thesis by (simp add: doubleSum_def nearestDouble_0)
next
  case (snoc qs q)
  then show ?thesis by (simp add: doubleSum_snoc toNumber_num_add)
qed

lemma five_eval: "toDecimal (Finite 5) = Finite 5 \<and> toNumber (Finite 5) = Finite 5"
  by (simp add: decimal_eval)

lemma demo_line_two:
  "toDecimal (num_mul (toNumber (Finite (899 / 100))) (nearestDouble 2)) = Finite (1798 / 100)"
  by (simp add: decimal_eval)

lemma demo_totals_two:
  "toDecimal (doubleSum [Finite (1798 / 100)]) = Finite (1798 / 100)
   \<and> toDecimal (num_mul (toNumber (Finite (1798 / 100))) (nearestDouble (1 / 10)))
       = Finite (1798 / 1000)
   \<and> toDecimal (num_add (num_add (toNumber (Finite (1798 / 100))) (toNumber (Finite (1798 / 1000))))
                 (toNumber (Finite 5))) = Finite (24778 / 1000)"
  by (simp add: doubleSum_def decimal_eval)

lemma demo_line_nine:
  "toDecimal (num_mul (toNumber (Finite (899 / 100))) (nearestDouble 9)) = Finite (8091 / 100)"
  by (simp add: decimal_eval)

lemma demo_nine_computed:
  "toDecimal (num_add (Finite 0) (toNumber (Finite (8091 / 100)))) = Finite (8091 / 100)
   \<and> toDecimal (num_mul (num_add (Finite 0) (toNumber (Finite (8091 / 100)))) (nearestDouble (1 / 10)))
       = Finite (8091 / 1000)
   \<and> toDecimal (num_add (num_add (num_add (Finite 0) (toNumber (Finite (8091 / 100))))
                            (num_mul (num_add (Finite 0) (toNumber (Finite (8091 / 100))))
                               (nearestDouble (1 / 10))))
                 (Finite 5)) = Finite (9400099999999999 / 100000000000000)"
  by (simp add: decimal_eval)


section \<open>Totals of a created order\<close>

lemma itemsFromRequest_lines:
  "itemsFromRequest ar db rid its = Inr ois \<Longrightarrow>
     list_all (snapshotLine ar db) ois
     \<and> map oi_menuItemId ois = map in_menuItemId its
     \<and> map oi_quantity ois = map in_quantity its"
  by (induction its arbitrary: ois)
     (auto simp add: snapshotLine_def split: option.splits if_splits sum.splits)

lemma itemsFromCart_lines:
  "itemsFromCart ar db rid its = Inr ois \<Longrightarrow>
     list_all (snapshotLine ar db) ois
     \<and> map oi_menuItemId ois = map ci_menuItemId its
     \<and> map oi_quantity ois = map ci_quantity its"
  by (induction its arbitrary: ois)
     (auto simp add: snapshotLine_def split: option.splits if_splits sum.splits)

lemma collectOrderItems_lines:
  assumes "collectOrderItems ar userId data db = Inr ois"
  shows "list_all (snapshotLine ar db) ois
    \<and> (case cd_items data of
          Some (i # is) \<Rightarrow>
            map oi_menuItemId ois = map in_menuItemId (i # is)
            \<and> map oi_quantity ois = map in_quantity (i # is)
        | _ \<Rightarrow>
            (\<exists>its. cartItemsOf userId db = Some its \<and> its \<noteq> []
               \<and> map oi_menuItemId ois = map ci_menuItemId its
               \<and> map oi_quantity ois = map ci_quantity its))"
proof -
  have cart: "list_all (snapshotLine ar db) ois
      \<and> (\<exists>its. cartItemsOf userId db = Some its \<and> its \<noteq> []
               \<and> map oi_menuItemId ois = map ci_menuItemId its
               \<and> map oi_quantity ois = map ci_quantity its)"
    if "collectFromCart ar userId data db = Inr ois"
    using that itemsFromCart_lines[of ar db "cd_restaurantId data" _ ois]
    by (auto simp add: collectFromCart_def split: option.splits if_splits)
  show ?thesis
  proof (cases "cd_items data")
    case None
    then show ?thesis using assms cart by (simp add: collectOrderItems_def)
  next
    case (Some its)
    show ?thesis
    proof (cases its)
      case Nil
      then show ?thesis using assms cart Some by (simp add: collectOrderItems_def)
    next
      case (Cons i "is")
      then show ?thesis
        using assms Some itemsFromRequest_lines[of ar db "cd_restaurantId data" its ois]
        by (simp add: collectOrderItems_def)
    qed
  qed
qed

text \<open>The totals of a created order over the operations of the source, uninterpreted.\<close>

lemma createOrder_totals_any:
  assumes ok: "createOrder ar userId data db = Inr (ord, db')"
  shows "\<exists>subtotal tax.
       subtotal = foldl (\<lambda>sum item. js_add ar sum (js_number ar (oi_totalPrice item)))
                    (js_zero ar) (o_items ord)
     \<and> tax = js_mul ar subtotal (js_tenth ar)
     \<and> o_subtotal ord = js_decimal ar subtotal
     \<and> o_tax ord = js_decimal ar tax
     \<and> o_deliveryFee ord = js_decimal ar (js_five ar)
     \<and> o_totalAmount ord = js_decimal ar (js_add ar (js_add ar subtotal tax) (js_five ar))"
    and "list_all (snapshotLine ar db) (o_items ord)"
    and "case cd_items data of
          Some (i # is) \<Rightarrow>
            map oi_menuItemId (o_items ord) = map in_menuItemId (i # is)
            \<and> map oi_quantity (o_items ord) = map in_quantity (i # is)
        | _ \<Rightarrow>
            (\<exists>its. cartItemsOf userId db = Some its \<and> its \<noteq> []
               \<and> map oi_menuItemId (o_items ord) = map ci_menuItemId its
               \<and> map oi_quantity (o_items ord) = map ci_quantity its)"
    and "o_status ord = PENDING"
    and "orders db' = orders db @ [ord]"
proof -
  from ok obtain ois where c: "collectOrderItems ar userId data db = Inr ois"
    and o: "ord = newOrder ar userId data ois db"
    by (auto simp add: createOrder_accepted)
  have items: "o_items ord = ois" by (simp add: o newOrder_def Let_def)
  note lines = collectOrderItems_lines[OF c, folded items]
  show "list_all (snapshotLine ar db) (o_items ord)" using lines by (rule conjunct1)
  show "case cd_items data of
          Some (i # is) \<Rightarrow>
            map oi_menuItemId (o_items ord) = map in_menuItemId (i # is)
            \<and> map oi_quantity (o_items ord) = map in_quantity (i # is)
        | _ \<Rightarrow>
            (\<exists>its. cartItemsOf userId db = Some its \<and> its \<noteq> []
               \<and> map oi_menuItemId (o_items ord) = map ci_menuItemId its
               \<and> map oi_quantity (o_items ord) = map ci_quantity its)"
    using lines by (rule conjunct2)
  show "orders db' = orders db @ [ord]" using createOrder_frame[OF ok] by simp
  show "o_status ord = PENDING" by (simp add: o newOrder_def Let_def)
  show "\<exists>subtotal tax.
       subtotal = foldl (\<lambda>sum item. js_add ar sum (js_number ar (oi_totalPrice item)))
                    (js_zero ar) (o_items ord)
     \<and> tax = js_mul ar subtotal (js_tenth ar)
     \<and> o_subtotal ord = js_decimal ar subtotal
     \<and> o_tax ord = js_decimal ar tax
     \<and> o_deliveryFee ord = js_decimal ar (js_five ar)
     \<and> o_totalAmount ord = js_decimal ar (js_add ar (js_add ar subtotal tax) (js_five ar))"
    by (simp add: o newOrder_def Let_def)
qed

text \<open>
  Claim C4, as amended. For an order that \<open>createOrder\<close> returns, on the path with explicit
  items and on the cart path, the amounts are those of the arithmetic of doubles, each
  stored as the Decimal of the number computed, and they are related as the claim says
  with that arithmetic in place of the exact one. The items are those of the request, or
  of the cart. Every item carries the price its menu item has in the store, and its total
  price is the Decimal of the product of that price, read as a number, and the quantity.
  The subtotal is the Decimal of the sum of the items' total prices, each read as a number
  and added from 0 in the order of the items. The tax is the Decimal of the product of the
  subtotal, read as a number, and the double 0.1. The delivery fee is 5. The total amount
  is the Decimal of the subtotal plus the tax, plus the delivery fee, each read as a
  number. The example of the claim, two units at 8.99, is evaluated below: it gives
  exactly 17.98, 1.798, 5.00 and 24.778.
\<close>

theorem createOrder_totals:
  "createOrder ieee userId data db = Inr (ord, db') \<longrightarrow>
     list_all (\<lambda>item. map_option mi_price (findMenuItem (oi_menuItemId item) db)
                         = Some (oi_unitPrice item)
                 \<and> oi_totalPrice item
                     = toDecimal (num_mul (toNumber (oi_unitPrice item))
                                    (nearestDouble (of_int (oi_quantity item)))))
       (o_items ord)
     \<and> o_subtotal ord = toDecimal (doubleSum (map oi_totalPrice (o_items ord)))
     \<and> o_tax ord = toDecimal (num_mul (toNumber (o_subtotal ord)) (nearestDouble (1 / 10)))
     \<and> o_deliveryFee ord = Finite 5
     \<and> o_totalAmount ord
         = toDecimal (num_add (num_add (toNumber (o_subtotal ord)) (toNumber (o_tax ord)))
                        (toNumber (o_deliveryFee ord)))
     \<and> (case cd_items data of
          Some (i # is) \<Rightarrow>
            map oi_menuItemId (o_items ord) = map in_menuItemId (i # is)
            \<and> map oi_quantity (o_items ord) = map in_quantity (i # is)
        | _ \<Rightarrow>
            (\<exists>its. cartItemsOf userId db = Some its \<and> its \<noteq> []
               \<and> map oi_menuItemId (o_items ord) = map ci_menuItemId its
               \<and> map oi_quantity (o_items ord) = map ci_quantity its))
     \<and> o_status ord = PENDING
     \<and> orders db' = orders db @ [ord]"
proof (intro impI)
  assume ok: "createOrder ieee userId data db = Inr (ord, db')"
  note t = createOrder_totals_any[OF ok]
  let ?S = "doubleSum (map oi_totalPrice (o_items ord))"
  let ?T = "num_mul ?S (nearestDouble (1 / 10))"
  have fold: "foldl (\<lambda>sum item. js_add ieee sum (js_number ieee (oi_totalPrice item)))
                (js_zero ieee) (o_items ord) = ?S"
    by (simp add: ieee_def doubleSum_def foldl_map)
  from t(1) have sub: "o_subtotal ord = toDecimal ?S" and tax: "o_tax ord = toDecimal ?T"
    and fee: "o_deliveryFee ord = toDecimal (Finite 5)"
    and tot: "o_totalAmount ord = toDecimal (num_add (num_add ?S ?T) (Finite 5))"
    by (simp_all only: fold) (simp_all add: ieee_def)
  have subN: "toNumber (o_subtotal ord) = ?S"
    by (simp only: sub toNumber_toDecimal[OF toNumber_doubleSum])
  have taxN: "toNumber (o_tax ord) = ?T"
    by (simp only: tax toNumber_toDecimal[OF toNumber_num_mul])
  have fee5: "o_deliveryFee ord = Finite 5" and feeN: "toNumber (o_deliveryFee ord) = Finite 5"
    using five_eval by (simp_all only: fee)
  have lines: "list_all (\<lambda>item. map_option mi_price (findMenuItem (oi_menuItemId item) db)
                         = Some (oi_unitPrice item)
                 \<and> oi_totalPrice item
                     = toDecimal (num_mul (toNumber (oi_unitPrice item))
                                    (nearestDouble (of_int (oi_quantity item)))))
       (o_items ord)"
    using t(2) by (auto simp add: list_all_iff snapshotLine_def ieee_def split: option.splits)
  show "list_all (\<lambda>item. map_option mi_price (findMenuItem (oi_menuItemId item) db)
                         = Some (oi_unitPrice item)
                 \<and> oi_totalPrice item
                     = toDecimal (num_mul (toNumber (oi_unitPrice item))
                                    (nearestDouble (of_int (oi_quantity item)))))
       (o_items ord)
     \<and> o_subtotal ord = toDecimal (doubleSum (map oi_totalPrice (o_items ord)))
     \<and> o_tax ord = toDecimal (num_mul (toNumber (o_subtotal ord)) (nearestDouble (1 / 10)))
     \<and> o_deliveryFee ord = Finite 5
     \<and> o_totalAmount ord
         = toDecimal (num_add (num_add (toNumber (o_subtotal ord)) (toNumber (o_tax ord)))
                        (toNumber (o_deliveryFee ord)))
     \<and> (case cd_items data of
          Some (i # is) \<Rightarrow>
            map oi_menuItemId (o_items ord) = map in_menuItemId (i # is)
            \<and> map oi_quantity (o_items ord) = map in_quantity (i # is)
        | _ \<Rightarrow>
            (\<exists>its. cartItemsOf userId db = Some its \<and> its \<noteq> []
               \<and> map oi_menuItemId (o_items ord) = map ci_menuItemId its
               \<and> map oi_quantity (o_items ord) = map ci_quantity its))
     \<and> o_status ord = PENDING
     \<and> orders db' = orders db @ [ord]"
  proof (intro conjI)
    show "o_tax ord = toDecimal (num_mul (toNumber (o_subtotal ord)) (nearestDouble (1 / 10)))"
      by (simp only: subN tax)
    show "o_totalAmount ord
         = toDecimal (num_add (num_add (toNumber (o_subtotal ord)) (toNumber (o_tax ord)))
                        (toNumber (o_deliveryFee ord)))"
      by (simp only: subN taxN feeN tot)
  qed (fact lines sub fee5 t(3) t(4) t(5))+
qed

theorem createOrder_totals_witness:
  "(\<exists>ord db'. createOrder ieee ''u2'' (demo_data\<lparr>cd_items := Some demo_items\<rparr>) demo_db
                 = Inr (ord, db')
      \<and> map oi_unitPrice (o_items ord) = [Finite (899 / 100)]
      \<and> map oi_totalPrice (o_items ord) = [Finite (1798 / 100)]
      \<and> o_subtotal ord = Finite (1798 / 100) \<and> o_tax ord = Finite (1798 / 1000)
      \<and> o_deliveryFee ord = Finite 5 \<and> o_totalAmount ord = Finite (24778 / 1000))
   \<and> (\<exists>ord db'. createOrder ieee ''u1'' demo_data demo_db = Inr (ord, db')
      \<and> map oi_totalPrice (o_items ord) = [Finite (1798 / 100)]
      \<and> o_subtotal ord = Finite (1798 / 100) \<and> o_tax ord = Finite (1798 / 1000)
      \<and> o_deliveryFee ord = Finite 5 \<and> o_totalAmount ord = Finite (24778 / 1000))"
proof -
  have m1: "findMenuItem ''m1'' demo_db
              = Some \<lparr>mi_id = ''m1'', mi_name = ''Soup'', mi_price = Finite (899 / 100),
                      mi_isAvailable = True, mi_restaurantId = ''r1''\<rparr>"
    by (simp add: findMenuItem_def demo_db_def)
  have totals: "map oi_unitPrice (o_items ord) = [Finite (899 / 100)]
      \<and> map oi_totalPrice (o_items ord) = [Finite (1798 / 100)]
      \<and> o_subtotal ord = Finite (1798 / 100) \<and> o_tax ord = Finite (1798 / 1000)
      \<and> o_deliveryFee ord = Finite 5 \<and> o_totalAmount ord = Finite (24778 / 1000)"
    if ok: "createOrder ieee userId data demo_db = Inr (ord, db')"
      and ids: "map oi_menuItemId (o_items ord) = [''m1'']"
      and qs: "map oi_quantity (o_items ord) = [2]"
    for userId data ord db'
  proof -
    note t = createOrder_totals[of userId data demo_db ord db', rule_format, OF ok]
    from ids qs obtain line where l: "o_items ord = [line]" "oi_menuItemId line = ''m1''"
      "oi_quantity line = 2"
      by (cases "o_items ord") auto
    from t[THEN conjunct1] l m1
    have u: "oi_unitPrice line = Finite (899 / 100)"
      and "oi_totalPrice line
             = toDecimal (num_mul (toNumber (oi_unitPrice line)) (nearestDouble 2))"
      by (simp_all del: toNumber.simps toDecimal.simps)
    then have p: "oi_totalPrice line = Finite (1798 / 100)"
      by (simp only: demo_line_two)
    have s: "o_subtotal ord = Finite (1798 / 100)"
      using t[THEN conjunct2, THEN conjunct1] by (simp only: l list.map p demo_totals_two)
    have x: "o_tax ord = Finite (1798 / 1000)"
      using t[THEN conjunct2, THEN conjunct2, THEN conjunct1] by (simp only: s demo_totals_two)
    have f: "o_deliveryFee ord = Finite 5"
      using t[THEN conjunct2, THEN conjunct2, THEN conjunct2, THEN conjunct1] .
    have a: "o_totalAmount ord = Finite (24778 / 1000)"
      using t[THEN conjunct2, THEN conjunct2, THEN conjunct2, THEN conjunct2, THEN conjunct1]
      by (simp only: s x f demo_totals_two)
    from l u p s x f a show ?thesis by simp
  qed
  have e2: "\<exists>ord db'. createOrder ieee ''u2'' (demo_data\<lparr>cd_items := Some demo_items\<rparr>) demo_db
                 = Inr (ord, db')
              \<and> map oi_menuItemId (o_items ord) = [''m1''] \<and> map oi_quantity (o_items ord) = [2]"
    by (simp add: demo_data_def demo_items_def create_eval_defs)
  have e1: "\<exists>ord db'. createOrder ieee ''u1'' demo_data demo_db = Inr (ord, db')
              \<and> map oi_menuItemId (o_items ord) = [''m1''] \<and> map oi_quantity (o_items ord) = [2]"
    by (simp add: demo_data_def create_eval_defs)
  from e2 totals have "\<exists>ord db'. createOrder ieee ''u2'' (demo_data\<lparr>cd_items := Some demo_items\<rparr>) demo_db
                 = Inr (ord, db')
      \<and> map oi_unitPrice (o_items ord) = [Finite (899 / 100)]
      \<and> map oi_totalPrice (o_items ord) = [Finite (1798 / 100)]
      \<and> o_subtotal ord = Finite (1798 / 100) \<and> o_tax ord = Finite (1798 / 1000)
      \<and> o_deliveryFee ord = Finite 5 \<and> o_totalAmount ord = Finite (24778 / 1000)"
    by metis
  moreover from e1 totals have "\<exists>ord db'. createOrder ieee ''u1'' demo_data demo_db = Inr (ord, db')
      \<and> map oi_totalPrice (o_items ord) = [Finite (1798 / 100)]
      \<and> o_subtotal ord = Finite (1798 / 100) \<and> o_tax ord = Finite (1798 / 1000)
      \<and> o_deliveryFee ord = Finite 5 \<and> o_totalAmount ord = Finite (24778 / 1000)"
    by metis
  ultimately show ?thesis by (rule conjI)
qed

text \<open>
  Claim C4 as stated fails for nine units at 8.99: the order is stored with subtotal 80.91,
  tax 8.091 and delivery fee 5, whose sum is 94.001, and with total amount
  94.00099999999999.
\<close>

theorem createOrder_rounding_counterexample:
  "map_option o_subtotal (created (createOrder ieee ''u2'' (demo_data\<lparr>cd_items := Some demo_nine\<rparr>) demo_db))
     = Some (Finite (8091 / 100))
   \<and> map_option o_tax (created (createOrder ieee ''u2'' (demo_data\<lparr>cd_items := Some demo_nine\<rparr>) demo_db))
     = Some (Finite (8091 / 1000))
   \<and> map_option o_deliveryFee (created (createOrder ieee ''u2'' (demo_data\<lparr>cd_items := Some demo_nine\<rparr>) demo_db))
     = Some (Finite 5)
   \<and> map_option o_totalAmount (created (createOrder ieee ''u2'' (demo_data\<lparr>cd_items := Some demo_nine\<rparr>) demo_db))
     = Some (Finite (9400099999999999 / 100000000000000))
   \<and> (8091 / 100 + 8091 / 1000 + 5 :: rat) = 94001 / 1000
   \<and> Finite (9400099999999999 / 100000000000000) \<noteq> Finite (94001 / 1000)"
  by (simp add: demo_data_def demo_nine_def demo_db_def create_eval_defs newOrder_def Let_def
        findMenuItem_def ieee_def demo_line_nine demo_nine_computed five_eval
        del: toNumber.simps toDecimal.simps num_add.simps num_mul.simps)

end
